theory Spec2Isabelle
  imports
    Main
    "HOL-Library.Char_ord"
    "HOL-Library.List_Lexorder"
    "HOL-Library.Product_Lexorder"
    "HOL-Library.AList"
begin

section \<open>Calendar dates\<close>

text \<open>
  The scheduler of \<^verbatim>\<open>vvf_scheduler/core.py\<close> works on \<^verbatim>\<open>datetime.date\<close> values. A
  date is the triple (year, month, day); Python compares dates as these triples, which
  is the lexicographic order of \<^theory_text>\<open>Product_Lexorder\<close>. Names are Python \<^verbatim>\<open>str\<close>,
  compared code point by code point: the order of \<^theory_text>\<open>List_Lexorder\<close> over
  \<^theory_text>\<open>Char_ord\<close>. The functions below follow \<^verbatim>\<open>datetime\<close>'s own arithmetic
  (\<^verbatim>\<open>_is_leap\<close>, \<^verbatim>\<open>_days_before_year\<close>, \<^verbatim>\<open>_days_before_month\<close>, \<^verbatim>\<open>_ymd2ord\<close>,
  \<^verbatim>\<open>weekday\<close>, \<^verbatim>\<open>_isoweek1monday\<close>, \<^verbatim>\<open>isocalendar\<close>); Python's \<^verbatim>\<open>//\<close> and \<^verbatim>\<open>%\<close> are
  \<open>div\<close> and \<open>mod\<close> on \<open>int\<close>.
\<close>

type_synonym date = "int \<times> int \<times> int"

definition year :: "date \<Rightarrow> int" where
  "year g = fst g"

definition month :: "date \<Rightarrow> int" where
  "month g = fst (snd g)"

definition day :: "date \<Rightarrow> int" where
  "day g = snd (snd g)"

definition is_leap :: "int \<Rightarrow> bool" where
  "is_leap y \<longleftrightarrow> y mod 4 = 0 \<and> (y mod 100 \<noteq> 0 \<or> y mod 400 = 0)"

definition days_before_year :: "int \<Rightarrow> int" where
  "days_before_year yr = (let y = yr - 1 in y * 365 + y div 4 - y div 100 + y div 400)"

definition days_in_month :: "int \<Rightarrow> int \<Rightarrow> int" where
  "days_in_month y m =
     (if m = 2 then (if is_leap y then 29 else 28)
      else if m = 4 \<or> m = 6 \<or> m = 9 \<or> m = 11 then 30 else 31)"

definition days_before_month :: "int \<Rightarrow> int \<Rightarrow> int" where
  "days_before_month y m = (\<Sum>k \<leftarrow> [1..m - 1]. days_in_month y k)"

definition toordinal :: "date \<Rightarrow> int" where
  "toordinal g = days_before_year (year g) + days_before_month (year g) (month g) + day g"

definition weekday :: "date \<Rightarrow> int" where
  "weekday g = (toordinal g + 6) mod 7"

definition isoweek1monday :: "int \<Rightarrow> int" where
  "isoweek1monday y =
     (let firstday = toordinal (y, 1, 1);
          firstweekday = (firstday + 6) mod 7;
          week1monday = firstday - firstweekday
      in if firstweekday > 3 then week1monday + 7 else week1monday)"

text \<open>\<^verbatim>\<open>Scheduler._week_key\<close>: the pair (ISO year, ISO week) of \<^verbatim>\<open>date.isocalendar()\<close>.\<close>

definition week_key :: "date \<Rightarrow> int \<times> int" where
  "week_key g =
     (let y = year g;
          today = toordinal g;
          week = (today - isoweek1monday y) div 7
      in if week < 0 then (y - 1, (today - isoweek1monday (y - 1)) div 7 + 1)
         else if week \<ge> 52 \<and> today \<ge> isoweek1monday (y + 1) then (y + 1, 1)
         else (y, week + 1))"

section \<open>Constants\<close>

text \<open>
  Modelled from the spec: \<^verbatim>\<open>vvf_scheduler/constants.py\<close> is not among the sources. It
  supplies the two seniority levels (junior, senior) and the set of months of the summer
  exclusion (July and August).
\<close>

definition LIV_JUNIOR :: string where
  "LIV_JUNIOR = ''JUNIOR''"

definition LIV_SENIOR :: string where
  "LIV_SENIOR = ''SENIOR''"

definition SUMMER_EXCLUDED_MONTHS :: "int set" where
  "SUMMER_EXCLUDED_MONTHS = {7, 8}"

text \<open>From \<^verbatim>\<open>database.py\<close>.\<close>

definition DEFAULT_ACTIVE_WEEKDAYS :: "int set" where
  "DEFAULT_ACTIVE_WEEKDAYS = {4, 5, 6}"

definition DEFAULT_WEEKLY_CAP :: int where
  "DEFAULT_WEEKLY_CAP = 1"

section \<open>The calendar of a year\<close>

datatype errore = ValueError | OverflowError | KeyError | IndexError

text \<open>
  \<^verbatim>\<open>date_attive_anno\<close> walks from 1 January to 31 December of the year one day at a time
  and keeps the days whose weekday and month are active. \<open>giorni_anno\<close> is that walk:
  every day of every month, in order. \<^verbatim>\<open>date(anno, 1, 1)\<close> raises ValueError unless
  the year is within 1..9999, and in year 9999 the last \<^verbatim>\<open>giorno += one_day\<close> leaves the
  range of \<^verbatim>\<open>date\<close> and raises OverflowError.
\<close>

definition giorni_anno :: "int \<Rightarrow> date list" where
  "giorni_anno anno =
     concat (map (\<lambda>m. map (\<lambda>d. (anno, m, d)) [1..days_in_month anno m]) [1..12])"

definition date_attive_anno :: "int \<Rightarrow> int set \<Rightarrow> int set option \<Rightarrow> errore + date list" where
  "date_attive_anno anno weekdays months =
     (let giorni_attivi0 = {g \<in> weekdays. 0 \<le> g \<and> g \<le> 6};
          giorni_attivi = (if giorni_attivi0 = {} then DEFAULT_ACTIVE_WEEKDAYS else giorni_attivi0);
          tutti = {1..12};
          mesi_attivi =
            (case months of
               None \<Rightarrow> tutti
             | Some ms \<Rightarrow>
                 if ms = {} then tutti
                 else (let mesi = {m \<in> ms. 1 \<le> m \<and> m \<le> 12}
                       in if mesi = {} then tutti else mesi))
      in if anno < 1 \<or> anno > 9999 then Inl ValueError
         else if anno = 9999 then Inl OverflowError
         else Inr (filter (\<lambda>giorno. weekday giorno \<in> giorni_attivi \<and> month giorno \<in> mesi_attivi)
                     (giorni_anno anno)))"

section \<open>Load counters\<close>

text \<open>
  \<^verbatim>\<open>Conteggi\<close> holds one dictionary per granularity, keyed by the person's name. Every
  accessor first calls \<^verbatim>\<open>assicura_persona\<close>, which stores zeros (and no last weekday) for
  a name not seen before, so a lookup never misses: each dictionary is a total function
  that is zero (or \<open>None\<close>) where nothing was recorded.
\<close>

record Conteggi =
  annuale :: "string \<Rightarrow> nat"
  per_mese :: "string \<Rightarrow> int \<Rightarrow> nat"
  per_mese_giorno :: "string \<Rightarrow> int \<Rightarrow> int \<Rightarrow> nat"
  per_giorno_anno :: "string \<Rightarrow> int \<Rightarrow> nat"
  per_settimana :: "string \<Rightarrow> int \<times> int \<Rightarrow> nat"
  ultimo_giorno :: "string \<Rightarrow> int option"

definition Conteggi_vuoti :: Conteggi where
  "Conteggi_vuoti =
     \<lparr>annuale = (\<lambda>_. 0), per_mese = (\<lambda>_ _. 0), per_mese_giorno = (\<lambda>_ _ _. 0),
      per_giorno_anno = (\<lambda>_ _. 0), per_settimana = (\<lambda>_ _. 0), ultimo_giorno = (\<lambda>_. None)\<rparr>"

definition aggiungi :: "Conteggi \<Rightarrow> string \<Rightarrow> date \<Rightarrow> Conteggi" where
  "aggiungi c nome giorno =
     (let mese = month giorno; dow = weekday giorno; wk = week_key giorno
      in c\<lparr>annuale := (annuale c)(nome := annuale c nome + 1),
            per_mese := (per_mese c)(nome := (per_mese c nome)(mese := per_mese c nome mese + 1)),
            per_mese_giorno := (per_mese_giorno c)
              (nome := (per_mese_giorno c nome)
                 (mese := (per_mese_giorno c nome mese)(dow := per_mese_giorno c nome mese dow + 1))),
            per_giorno_anno := (per_giorno_anno c)
              (nome := (per_giorno_anno c nome)(dow := per_giorno_anno c nome dow + 1)),
            per_settimana := (per_settimana c)
              (nome := (per_settimana c nome)(wk := per_settimana c nome wk + 1)),
            ultimo_giorno := (ultimo_giorno c)(nome := Some dow)\<rparr>)"

definition tot_mese :: "Conteggi \<Rightarrow> string \<Rightarrow> int \<Rightarrow> nat" where
  "tot_mese c nome mese = per_mese c nome mese"

definition tot_annuale :: "Conteggi \<Rightarrow> string \<Rightarrow> nat" where
  "tot_annuale c nome = annuale c nome"

definition tot_mese_giorno :: "Conteggi \<Rightarrow> string \<Rightarrow> int \<Rightarrow> int \<Rightarrow> nat" where
  "tot_mese_giorno c nome mese dow = per_mese_giorno c nome mese dow"

definition tot_giorno_anno :: "Conteggi \<Rightarrow> string \<Rightarrow> int \<Rightarrow> nat" where
  "tot_giorno_anno c nome dow = per_giorno_anno c nome dow"

definition tot_settimana :: "Conteggi \<Rightarrow> string \<Rightarrow> int \<times> int \<Rightarrow> nat" where
  "tot_settimana c nome wk = per_settimana c nome wk"

definition ultimo_dow :: "Conteggi \<Rightarrow> string \<Rightarrow> int option" where
  "ultimo_dow c nome = ultimo_giorno c nome"

section \<open>Rule configuration\<close>

datatype RuleMode = HARD | SOFT | OFF

record RuleDefinition =
  default_mode :: RuleMode
  has_value :: bool
  default_value :: "int option"

record GenerationRuleConfig =
  mode :: RuleMode
  "value" :: "int option"

definition RULE_DEFINITIONS :: "(string \<times> RuleDefinition) list" where
  "RULE_DEFINITIONS =
     [(''min_senior'', \<lparr>default_mode = HARD, has_value = True, default_value = Some 1\<rparr>),
      (''weekly_cap'', \<lparr>default_mode = HARD, has_value = False, default_value = None\<rparr>),
      (''summer_exclusion'', \<lparr>default_mode = HARD, has_value = False, default_value = None\<rparr>),
      (''varchi_rotation'', \<lparr>default_mode = HARD, has_value = False, default_value = None\<rparr>)]"

definition build_default_rules :: "string \<rightharpoonup> GenerationRuleConfig" where
  "build_default_rules =
     map_of (map (\<lambda>(key, definition).
                    (key, \<lparr>mode = default_mode definition,
                           value = (if has_value definition then default_value definition
                                    else None)\<rparr>))
                 RULE_DEFINITIONS)"

text \<open>
  \<^verbatim>\<open>merge_with_defaults\<close>. The dictionary of custom rules is the list of its items.
  \<open>base[key]\<close> cannot miss, since \<open>base\<close> is built from the same table; the model keeps
  the lookup and leaves the key out if it did.
\<close>

definition merge_with_defaults ::
  "(string \<times> GenerationRuleConfig) list \<Rightarrow> (string \<rightharpoonup> GenerationRuleConfig)" where
  "merge_with_defaults custom =
     (let base = build_default_rules
      in if custom = [] then base
         else (\<lambda>key.
                 case map_of RULE_DEFINITIONS key of
                   None \<Rightarrow> None
                 | Some definition \<Rightarrow>
                     (case map_of custom key of
                        None \<Rightarrow> base key
                      | Some cfg \<Rightarrow>
                          (let value0 = (if has_value definition then value cfg else None);
                               value1 = (if has_value definition \<and> value0 = None
                                         then default_value definition else value0)
                           in Some \<lparr>mode = mode cfg, value = value1\<rparr>))))"

section \<open>Program configuration\<close>

record Vacation =
  start :: date
  "end" :: date

record ConstraintRule =
  primo :: string
  secondo :: string
  is_hard :: bool

record PreferredRule =
  pr_autista :: string
  pr_vigile :: string
  pr_is_hard :: bool

record ProgramConfig =
  cfg_autisti :: "string list"
  cfg_vigili :: "string list"
  cfg_esperienza_vigili :: "string \<rightharpoonup> string"
  cfg_weekly_cap :: "string \<rightharpoonup> int"
  coppie_vietate :: "ConstraintRule list"
  coppie_preferite :: "PreferredRule list"
  cfg_autista_varchi :: "string option"
  cfg_autista_pogliani :: "string option"
  cfg_vigile_escluso_estate :: "string option"
  cfg_min_esperti :: int
  cfg_ferie :: "string \<rightharpoonup> Vacation list"
  cfg_active_weekdays :: "int set"
  cfg_enable_varchi_rule :: bool
  generation_rules :: "(string \<times> GenerationRuleConfig) list"

section \<open>The scheduler object\<close>

text \<open>
  The attributes that \<^verbatim>\<open>Scheduler.__init__\<close> computes from the configuration and never
  writes again are the record \<open>Scheduler\<close>; the attributes that a run mutates are the
  record \<open>Stato\<close>, passed through every method and returned updated.

  \<^verbatim>\<open>preferenze_hard\<close> and \<^verbatim>\<open>preferenze_soft\<close> map a driver to a Python \<^verbatim>\<open>set\<close> of
  crew names, read with \<^verbatim>\<open>.get(autista, set())\<close>. The crew selector iterates the hard
  set, and CPython iterates a set of \<^verbatim>\<open>str\<close> in an order that the program does not fix.
  The model lists the set in one order derived from the order of \<^verbatim>\<open>coppie_preferite\<close>;
  any other iteration order is this one for a permuted \<^verbatim>\<open>coppie_preferite\<close>.
\<close>

record Scheduler =
  anno :: int
  autisti :: "string list"
  vigili_sch :: "string list"
  esperienza_vigili :: "string \<rightharpoonup> string"
  forbidden_hard :: "string set set"
  forbidden_soft :: "string set set"
  preferenze_hard :: "string \<Rightarrow> string list"
  preferenze_soft :: "string \<Rightarrow> string list"
  weekly_cap :: "string \<rightharpoonup> int"
  default_weekly_cap :: int
  rule_min_senior :: GenerationRuleConfig
  rule_weekly_cap :: GenerationRuleConfig
  rule_summer :: GenerationRuleConfig
  rule_varchi :: GenerationRuleConfig
  enable_varchi_rule :: bool
  autista_varchi :: "string option"
  autista_pogliani :: "string option"
  vigile_escluso_estate :: "string option"
  min_esperti :: int
  active_weekdays :: "int set"
  active_months :: "int set"
  date :: "date list"
  ferie :: "string \<rightharpoonup> Vacation list"
  varchi_is_senior :: bool

text \<open>Python truth value of an \<^verbatim>\<open>Optional[str]\<close>: neither \<^verbatim>\<open>None\<close> nor the empty string.\<close>

definition truthy :: "string option \<Rightarrow> bool" where
  "truthy x = (case x of None \<Rightarrow> False | Some n \<Rightarrow> n \<noteq> [])"

definition esperienza_get :: "(string \<rightharpoonup> string) \<Rightarrow> string \<Rightarrow> string" where
  "esperienza_get m nome = (case m nome of None \<Rightarrow> LIV_JUNIOR | Some l \<Rightarrow> l)"

text \<open>
  The attribute assignments of \<^verbatim>\<open>__init__\<close>, given the four merged rules, the active
  weekdays and months and the calendar computed from them.
\<close>

definition Scheduler_campi ::
  "int \<Rightarrow> ProgramConfig \<Rightarrow> GenerationRuleConfig \<Rightarrow> GenerationRuleConfig \<Rightarrow>
   GenerationRuleConfig \<Rightarrow> GenerationRuleConfig \<Rightarrow> int set \<Rightarrow> int set \<Rightarrow> date list \<Rightarrow> Scheduler" where
  "Scheduler_campi anno0 config r_min_senior r_weekly_cap r_summer r_varchi weekdays0 months1 date0 =
     (let vigili0 = sort (cfg_vigili config);
          esperienza0 = (\<lambda>nome. if nome \<in> set vigili0
                           then Some (esperienza_get (cfg_esperienza_vigili config) nome)
                           else None);
          enable0 = (cfg_enable_varchi_rule config \<and> mode r_varchi \<noteq> OFF);
          min_rule_value = (case value r_min_senior of
                              Some v \<Rightarrow> v | None \<Rightarrow> cfg_min_esperti config);
          varchi0 = (if enable0 then cfg_autista_varchi config else None);
          pogliani0 = (if enable0 then cfg_autista_pogliani config else None)
      in \<lparr>anno = anno0,
          autisti = sort (cfg_autisti config),
          vigili_sch = vigili0,
          esperienza_vigili = esperienza0,
          forbidden_hard =
            (\<lambda>rule. {primo rule, secondo rule}) ` set (filter is_hard (coppie_vietate config)),
          forbidden_soft =
            (\<lambda>rule. {primo rule, secondo rule}) `
              set (filter (\<lambda>rule. \<not> is_hard rule) (coppie_vietate config)),
          preferenze_hard =
            (\<lambda>a. remdups (map pr_vigile
               (filter (\<lambda>rule. pr_is_hard rule \<and> pr_autista rule = a)
                  (coppie_preferite config)))),
          preferenze_soft =
            (\<lambda>a. remdups (map pr_vigile
               (filter (\<lambda>rule. \<not> pr_is_hard rule \<and> pr_autista rule = a)
                  (coppie_preferite config)))),
          weekly_cap = (\<lambda>nome. map_option (max 0) (cfg_weekly_cap config nome)),
          default_weekly_cap = max 0 DEFAULT_WEEKLY_CAP,
          rule_min_senior = r_min_senior,
          rule_weekly_cap = r_weekly_cap,
          rule_summer = r_summer,
          rule_varchi = r_varchi,
          enable_varchi_rule = enable0,
          autista_varchi = varchi0,
          autista_pogliani = pogliani0,
          vigile_escluso_estate =
            (if mode r_summer \<noteq> OFF then cfg_vigile_escluso_estate config else None),
          min_esperti = max 0 min_rule_value,
          active_weekdays = weekdays0,
          active_months = months1,
          date = date0,
          ferie = cfg_ferie config,
          varchi_is_senior =
            (enable0 \<and> varchi0 \<noteq> None \<and>
             (case varchi0 of None \<Rightarrow> False
              | Some v \<Rightarrow> v \<in> set vigili0 \<and> esperienza_get esperienza0 v = LIV_SENIOR))\<rparr>)"

text \<open>
  \<^verbatim>\<open>Scheduler.__init__\<close>: the lookups \<^verbatim>\<open>self.rules[...]\<close> raise KeyError on a missing key,
  \<^verbatim>\<open>date_attive_anno\<close> raises on a year out of range.
\<close>

definition Scheduler_init :: "int \<Rightarrow> ProgramConfig \<Rightarrow> int list option \<Rightarrow> errore + Scheduler" where
  "Scheduler_init anno0 config months =
     (let rules = merge_with_defaults (generation_rules config);
          weekdays0 = (if cfg_active_weekdays config = {} then DEFAULT_ACTIVE_WEEKDAYS
                       else cfg_active_weekdays config);
          months0 = (case months of
                       None \<Rightarrow> {1..12}
                     | Some ms \<Rightarrow> if ms = [] then {1..12}
                                  else {m \<in> set ms. 1 \<le> m \<and> m \<le> 12});
          months1 = (if months0 = {} then {1..12} else months0)
      in case rules ''min_senior'' of None \<Rightarrow> Inl KeyError | Some r_min_senior \<Rightarrow>
         (case rules ''weekly_cap'' of None \<Rightarrow> Inl KeyError | Some r_weekly_cap \<Rightarrow>
         (case rules ''summer_exclusion'' of None \<Rightarrow> Inl KeyError | Some r_summer \<Rightarrow>
         (case rules ''varchi_rotation'' of None \<Rightarrow> Inl KeyError | Some r_varchi \<Rightarrow>
         (case date_attive_anno anno0 weekdays0 (Some months1) of
            Inl e \<Rightarrow> Inl e
          | Inr date0 \<Rightarrow>
              Inr (Scheduler_campi anno0 config r_min_senior r_weekly_cap r_summer r_varchi
                     weekdays0 months1 date0))))))"

subsection \<open>The decision log\<close>

text \<open>
  \<^verbatim>\<open>_log\<close> appends the line \<^verbatim>\<open>[date] [category] message\<close>. An entry is kept as the
  triple it is formatted from; each constructor of \<open>messaggio\<close> is one of the message
  templates of \<^verbatim>\<open>core.py\<close>, with the values it interpolates.
\<close>

datatype categoria = AUTISTA | VIGILI

datatype messaggio =
    Regola_sabato "string option" "string option"
  | Visualizzo "string option" "string option"
  | Turno_scoperto
  | Deroga_varchi
  | Nessun_autista
  | Deroga_mese_giorno
  | Deroga_limite_autista string
  | Deroga_candidati bool bool "string list"
  | Candidati_insufficienti nat nat
  | Vincolo_duro_manca string
  | Vincoli_duri_eccedono
  | Impossibile_completare nat nat
  | Deroga_nessun_senior
  | Deroga_senior nat int
  | Nessuna_combinazione
  | Deroga_coppie nat
  | Squadra_vista "string list"
  | Deroga_limite_vigile string
  | Deroga_estiva string
  | Varchi_ferie string
  | Varchi_limite string
  | Venerdi_speciale string

type_synonym voce = "date \<times> categoria \<times> messaggio"

subsection \<open>Mutable state\<close>

text \<open>
  \<open>random_state\<close> is the state of the process-wide generator behind \<^verbatim>\<open>random.random()\<close>:
  the sequence of values still to be drawn. Only their order matters to the scheduler.
\<close>

record Stato =
  cont_aut :: Conteggi
  cont_vig :: Conteggi
  squadre_visti :: "string set set"
  log :: "voce list"
  autisti_reali :: "date \<rightharpoonup> string option"
  random_state :: "nat \<Rightarrow> nat"

definition stato_iniziale :: "(nat \<Rightarrow> nat) \<Rightarrow> Stato" where
  "stato_iniziale rnd =
     \<lparr>cont_aut = Conteggi_vuoti, cont_vig = Conteggi_vuoti, squadre_visti = {},
      log = [], autisti_reali = Map.empty, random_state = rnd\<rparr>"

definition log_voce :: "date \<Rightarrow> categoria \<Rightarrow> messaggio \<Rightarrow> Stato \<Rightarrow> Stato" where
  "log_voce giorno cat msg s = s\<lparr>log := log s @ [(giorno, cat, msg)]\<rparr>"

definition log_voci :: "date \<Rightarrow> categoria \<Rightarrow> messaggio list \<Rightarrow> Stato \<Rightarrow> Stato" where
  "log_voci giorno cat msgs s = s\<lparr>log := log s @ map (\<lambda>msg. (giorno, cat, msg)) msgs\<rparr>"

definition random_random :: "Stato \<Rightarrow> nat \<times> Stato" where
  "random_random s = (random_state s 0, s\<lparr>random_state := (\<lambda>i. random_state s (Suc i))\<rparr>)"

text \<open>\<open>k\<close> successive draws, as made while the keys of a \<open>k\<close>-element list are computed.\<close>

definition random_chiavi :: "nat \<Rightarrow> Stato \<Rightarrow> nat list \<times> Stato" where
  "random_chiavi k s =
     (map (random_state s) [0..<k], s\<lparr>random_state := (\<lambda>i. random_state s (i + k))\<rparr>)"

subsection \<open>Small methods\<close>

definition limite_settimanale :: "Scheduler \<Rightarrow> string \<Rightarrow> int" where
  "limite_settimanale sch nome =
     (case weekly_cap sch nome of Some cap \<Rightarrow> cap | None \<Rightarrow> default_weekly_cap sch)"

definition limite_raggiunto_raw :: "Scheduler \<Rightarrow> Conteggi \<Rightarrow> string \<Rightarrow> date \<Rightarrow> bool" where
  "limite_raggiunto_raw sch conteggi nome giorno =
     (let cap = limite_settimanale sch nome
      in if cap \<le> 0 then False
         else int (tot_settimana conteggi nome (week_key giorno)) \<ge> cap)"

definition ha_raggiunto_limite :: "Scheduler \<Rightarrow> Conteggi \<Rightarrow> string \<Rightarrow> date \<Rightarrow> bool" where
  "ha_raggiunto_limite sch conteggi nome giorno =
     (if mode (rule_weekly_cap sch) = OFF then False
      else (let raggiunto = limite_raggiunto_raw sch conteggi nome giorno
            in if raggiunto \<and> mode (rule_weekly_cap sch) = SOFT then False else raggiunto))"

definition in_ferie :: "Scheduler \<Rightarrow> string \<Rightarrow> date \<Rightarrow> bool" where
  "in_ferie sch nome giorno =
     list_ex (\<lambda>vac. start vac \<le> giorno \<and> giorno \<le> end vac)
       (case ferie sch nome of None \<Rightarrow> [] | Some vacs \<Rightarrow> vacs)"

definition preferenze_obbligatorie :: "Scheduler \<Rightarrow> string option \<Rightarrow> string list" where
  "preferenze_obbligatorie sch aut =
     (case aut of None \<Rightarrow> [] | Some a \<Rightarrow> if a = [] then [] else preferenze_hard sch a)"

definition preferenze_soft_di :: "Scheduler \<Rightarrow> string option \<Rightarrow> string list" where
  "preferenze_soft_di sch aut =
     (case aut of None \<Rightarrow> [] | Some a \<Rightarrow> if a = [] then [] else preferenze_soft sch a)"

definition numero_vigili_previsti :: "int \<Rightarrow> nat" where
  "numero_vigili_previsti dow = 4"

section \<open>Driver selection\<close>

record Assegnazione =
  giorno :: date
  autista :: "string option"
  vigili :: "string option list"

text \<open>The first loop of \<^verbatim>\<open>_scegli_autista\<close>: the pairs (name, raw cap flag) it appends.\<close>

definition candidati_autista :: "Scheduler \<Rightarrow> Stato \<Rightarrow> date \<Rightarrow> string set \<Rightarrow> (string \<times> bool) list" where
  "candidati_autista sch s g esclusioni =
     concat (map (\<lambda>nome.
        if nome \<in> esclusioni then []
        else if in_ferie sch nome g then []
        else (let limit_raw = limite_raggiunto_raw sch (cont_aut s) nome g
              in if mode (rule_weekly_cap sch) = HARD \<and> limit_raw then []
                 else [(nome, limit_raw)]))
      (autisti sch))"

text \<open>
  The sort key of the pool. \<^verbatim>\<open>list.sort(key=...)\<close> computes the key of every element once,
  in list order, so the pool draws one random value per element, in order; the sort is
  stable, as \<open>sort_key\<close> is. \<open>limit_map[nome]\<close> is read in Boolean position only.
\<close>

definition chiave_autista ::
  "Stato \<Rightarrow> date \<Rightarrow> (string \<rightharpoonup> bool) \<Rightarrow> string \<times> nat \<Rightarrow> nat \<times> nat \<times> nat \<times> nat \<times> nat \<times> nat \<times> nat" where
  "chiave_autista s g limit_map = (\<lambda>(nome, casuale).
     ((if limit_map nome = Some True then 1 else 0),
      tot_settimana (cont_aut s) nome (week_key g),
      tot_mese (cont_aut s) nome (month g),
      tot_annuale (cont_aut s) nome,
      tot_giorno_anno (cont_aut s) nome (weekday g),
      (if ultimo_dow (cont_aut s) nome = Some (weekday g) then 1 else 0),
      casuale))"

definition scegli_autista ::
  "Scheduler \<Rightarrow> date \<Rightarrow> string set \<Rightarrow> Stato \<Rightarrow> errore + (string option \<times> Stato)" where
  "scegli_autista sch g esclusioni s =
     (let mese = month g; dow = weekday g;
          candidati_info = candidati_autista sch s g esclusioni
      in if candidati_info = [] then Inr (None, log_voce g AUTISTA Nessun_autista s)
         else
          (let limit_map = map_of (rev candidati_info);
               candidati = map fst candidati_info;
               preferiti = filter (\<lambda>nome. tot_mese_giorno (cont_aut s) nome mese dow < 1) candidati;
               pool = (if preferiti = [] then candidati else preferiti);
               s1 = (if preferiti = [] then log_voce g AUTISTA Deroga_mese_giorno s else s);
               (casuali, s2) = random_chiavi (length pool) s1;
               ordinati = sort_key (chiave_autista s2 g limit_map) (zip pool casuali)
           in case ordinati of
                [] \<Rightarrow> Inl IndexError
              | (scelto, _) # _ \<Rightarrow>
                  (let s3 = (if mode (rule_weekly_cap sch) = SOFT \<and> limit_map scelto = Some True
                             then log_voce g AUTISTA (Deroga_limite_autista scelto) s2 else s2)
                   in Inr (Some scelto, s3\<lparr>cont_aut := aggiungi (cont_aut s3) scelto g\<rparr>))))"

section \<open>Crew selection\<close>

text \<open>\<^verbatim>\<open>itertools.combinations\<close>: the sublists of a given length, in lexicographic index order.\<close>

fun combinations :: "'a list \<Rightarrow> nat \<Rightarrow> 'a list list" where
  "combinations xs 0 = [[]]"
| "combinations [] (Suc k) = []"
| "combinations (x # xs) (Suc k) = map ((#) x) (combinations xs k) @ combinations xs (Suc k)"

record Raccolta =
  candidati_base :: "string list"
  fallback_candidates :: "string list"
  limit_map :: "string \<rightharpoonup> bool"
  summer_map :: "string \<rightharpoonup> bool"

definition Raccolta_vuota :: Raccolta where
  "Raccolta_vuota = \<lparr>candidati_base = [], fallback_candidates = [],
                     limit_map = Map.empty, summer_map = Map.empty\<rparr>"

definition summer_block :: "Scheduler \<Rightarrow> string \<Rightarrow> int \<Rightarrow> bool" where
  "summer_block sch nome mese \<longleftrightarrow>
     truthy (vigile_escluso_estate sch) \<and> Some nome = vigile_escluso_estate sch \<and>
     mese \<in> SUMMER_EXCLUDED_MONTHS \<and> mode (rule_summer sch) \<noteq> OFF"

text \<open>
  The candidate loop of \<^verbatim>\<open>_scegli_squadra_vigili\<close> (\<^verbatim>\<open>for nome in self.vigili\<close>):
  \<open>raccogli_passo\<close> is one pass through its body, \<open>raccogli_candidati\<close> the loop.
\<close>

definition raccogli_passo ::
  "Scheduler \<Rightarrow> Conteggi \<Rightarrow> date \<Rightarrow> string set \<Rightarrow> Raccolta \<Rightarrow> string \<Rightarrow> Raccolta" where
  "raccogli_passo sch c g esclusioni r nome =
     (if nome \<in> esclusioni then r
      else if in_ferie sch nome g then r
      else (let blocco = summer_block sch nome (month g);
                limit_raw = limite_raggiunto_raw sch c nome g
            in if mode (rule_summer sch) = HARD \<and> blocco then r
               else if mode (rule_weekly_cap sch) = HARD \<and> limit_raw then r
               else (let r1 = r\<lparr>limit_map := (limit_map r)(nome \<mapsto> limit_raw),
                                summer_map := (summer_map r)(nome \<mapsto> blocco)\<rparr>
                     in if blocco \<or> limit_raw
                        then r1\<lparr>fallback_candidates := fallback_candidates r1 @ [nome]\<rparr>
                        else r1\<lparr>candidati_base := candidati_base r1 @ [nome]\<rparr>)))"

definition raccogli_candidati ::
  "Scheduler \<Rightarrow> Conteggi \<Rightarrow> date \<Rightarrow> string set \<Rightarrow> string list \<Rightarrow> Raccolta" where
  "raccogli_candidati sch c g esclusioni nomi =
     foldl (raccogli_passo sch c g esclusioni) Raccolta_vuota nomi"

text \<open>
  Two predicates that describe the loop from outside: \<open>ammesso\<close> holds of a name that passes
  every \<^verbatim>\<open>continue\<close> of the loop body, \<open>rinviato\<close> of a name that the body sends to
  \<^verbatim>\<open>fallback_candidates\<close> rather than to \<^verbatim>\<open>candidati_base\<close>. They are not part of the
  program; the lemmas on \<open>raccogli_candidati\<close> below relate them to it.
\<close>

definition ammesso :: "Scheduler \<Rightarrow> Conteggi \<Rightarrow> date \<Rightarrow> string set \<Rightarrow> string \<Rightarrow> bool" where
  "ammesso sch c g esclusioni nome \<longleftrightarrow>
     nome \<notin> esclusioni \<and> \<not> in_ferie sch nome g \<and>
     \<not> (mode (rule_summer sch) = HARD \<and> summer_block sch nome (month g)) \<and>
     \<not> (mode (rule_weekly_cap sch) = HARD \<and> limite_raggiunto_raw sch c nome g)"

definition rinviato :: "Scheduler \<Rightarrow> Conteggi \<Rightarrow> date \<Rightarrow> string \<Rightarrow> bool" where
  "rinviato sch c g nome \<longleftrightarrow>
     summer_block sch nome (month g) \<or> limite_raggiunto_raw sch c nome g"

type_synonym punteggio = "nat \<times> nat \<times> nat \<times> nat \<times> nat \<times> nat \<times> nat \<times> nat \<times> int \<times> nat"

type_synonym soluzione = "punteggio \<times> string list \<times> nat"

definition is_senior :: "Scheduler \<Rightarrow> string \<Rightarrow> bool" where
  "is_senior sch nome \<longleftrightarrow> esperienza_get (esperienza_vigili sch) nome = LIV_SENIOR"

definition hard_vietata :: "Scheduler \<Rightarrow> string list \<Rightarrow> bool" where
  "hard_vietata sch team \<longleftrightarrow> list_ex (\<lambda>pair. set pair \<in> forbidden_hard sch) (combinations team 2)"

definition calcola_punteggio ::
  "Scheduler \<Rightarrow> Stato \<Rightarrow> date \<Rightarrow> string option \<Rightarrow> string list \<Rightarrow> nat \<Rightarrow> punteggio" where
  "calcola_punteggio sch s g autista_corrente team casuale =
     (length (filter (\<lambda>pair. set pair \<in> forbidden_soft sch) (combinations team 2)),
      length (filter (\<lambda>nome. tot_mese_giorno (cont_vig s) nome (month g) (weekday g) \<ge> 1) team),
      (if set team \<notin> squadre_visti s then 0 else 1),
      (\<Sum>nome \<leftarrow> team. tot_settimana (cont_vig s) nome (week_key g)),
      (\<Sum>nome \<leftarrow> team. tot_mese (cont_vig s) nome (month g)),
      (\<Sum>nome \<leftarrow> team. tot_annuale (cont_vig s) nome),
      (\<Sum>nome \<leftarrow> team. tot_giorno_anno (cont_vig s) nome (weekday g)),
      length (filter (\<lambda>nome. ultimo_dow (cont_vig s) nome = Some (weekday g)) team),
      - int (length (filter (\<lambda>nome. nome \<in> set (preferenze_soft_di sch autista_corrente)) team)),
      casuale)"

text \<open>
  The loop over the combinations (\<^verbatim>\<open>for extra in combinazioni\<close>), carrying the list of
  solutions, the flag \<^verbatim>\<open>deroga_senior_loggata\<close> and the state (log and random generator):
  \<open>valuta_passo\<close> is one pass through its body, \<open>valuta_combinazioni\<close> the loop. The third
  component of a solution is the entry \<^verbatim>\<open>violazioni_soft\<close> of its dictionary.
\<close>

definition valuta_passo ::
  "Scheduler \<Rightarrow> date \<Rightarrow> string option \<Rightarrow> string list \<Rightarrow> bool \<Rightarrow>
   soluzione list \<times> bool \<times> Stato \<Rightarrow> string list \<Rightarrow> soluzione list \<times> bool \<times> Stato" where
  "valuta_passo sch g aut obbl ci_sono_senior = (\<lambda>(soluzioni, loggata, s) extra.
     (let team = obbl @ extra
      in if hard_vietata sch team then (soluzioni, loggata, s)
         else
          (let senior_count = length (filter (is_senior sch) team);
               nessun_senior = (min_esperti sch > 0 \<and> \<not> ci_sono_senior \<and> \<not> loggata);
               loggata1 = (loggata \<or> nessun_senior);
               s1 = (if nessun_senior then log_voce g VIGILI Deroga_nessun_senior s else s);
               carenza = (min_esperti sch > 0 \<and> ci_sono_senior \<and>
                          int senior_count < min_esperti sch)
           in if carenza \<and> mode (rule_min_senior sch) \<noteq> SOFT then (soluzioni, loggata1, s1)
              else
               (let logga = (carenza \<and> \<not> loggata1);
                    s2 = (if logga
                          then log_voce g VIGILI (Deroga_senior senior_count (min_esperti sch)) s1
                          else s1);
                    (casuale, s3) = random_random s2;
                    p = calcola_punteggio sch s3 g aut team casuale
                in (soluzioni @ [(p, team, fst p)], loggata1 \<or> logga, s3)))))"

definition valuta_combinazioni ::
  "Scheduler \<Rightarrow> date \<Rightarrow> string option \<Rightarrow> string list \<Rightarrow> bool \<Rightarrow> string list list \<Rightarrow>
   Stato \<Rightarrow> soluzione list \<times> bool \<times> Stato" where
  "valuta_combinazioni sch g aut obbl ci_sono_senior combinazioni s =
     foldl (valuta_passo sch g aut obbl ci_sono_senior) ([], False, s) combinazioni"

text \<open>The end of \<^verbatim>\<open>_scegli_squadra_vigili\<close>, after the best team is known: the relaxation
  entries, then the counters and the set of teams already used.\<close>

definition conferma_squadra ::
  "Scheduler \<Rightarrow> date \<Rightarrow> Raccolta \<Rightarrow> string list \<Rightarrow> nat \<Rightarrow> Stato \<Rightarrow> Stato" where
  "conferma_squadra sch g r team violazioni_soft s =
     (let s1 = (if violazioni_soft \<noteq> 0 then log_voce g VIGILI (Deroga_coppie violazioni_soft) s
                else s);
          s2 = (if set team \<in> squadre_visti s1 then log_voce g VIGILI (Squadra_vista team) s1
                else s1);
          s3 = (if mode (rule_weekly_cap sch) = SOFT
                then log_voci g VIGILI
                       (map Deroga_limite_vigile (filter (\<lambda>nome. limit_map r nome = Some True) team)) s2
                else s2);
          s4 = (if mode (rule_summer sch) = SOFT
                then log_voci g VIGILI
                       (map Deroga_estiva (filter (\<lambda>nome. summer_map r nome = Some True) team)) s3
                else s3)
      in s4\<lparr>cont_vig := foldl (\<lambda>c nome. aggiungi c nome g) (cont_vig s4) team,
            squadre_visti := insert (set team) (squadre_visti s4)\<rparr>)"

definition scegli_squadra_vigili ::
  "Scheduler \<Rightarrow> date \<Rightarrow> nat \<Rightarrow> string option \<Rightarrow> string set \<Rightarrow> Stato \<Rightarrow>
   errore + (string list option \<times> Stato)" where
  "scegli_squadra_vigili sch g n_vigili autista_corrente esclusioni s =
     (if n_vigili = 0 then Inr (Some [], s)
      else
       (let r = raccogli_candidati sch (cont_vig s) g esclusioni (vigili_sch sch);
            fb = fallback_candidates r;
            allarga = (length (candidati_base r) < n_vigili \<and> fb \<noteq> []);
            s1 = (if allarga
                  then log_voce g VIGILI
                         (Deroga_candidati (list_ex (\<lambda>n. limit_map r n = Some True) fb)
                            (list_ex (\<lambda>n. summer_map r n = Some True) fb) fb) s
                  else s);
            disponibili = (if allarga then candidati_base r @ fb else candidati_base r)
        in if length disponibili < n_vigili
           then Inr (None, log_voce g VIGILI
                             (Candidati_insufficienti (length disponibili) n_vigili) s1)
           else
            (let ci_sono_senior = list_ex (is_senior sch) disponibili;
                 obbligatori = preferenze_obbligatorie sch autista_corrente;
                 disponibili_obbligatori0 = filter (\<lambda>nome. nome \<in> set disponibili) obbligatori;
                 mancanti = filter (\<lambda>nome. nome \<notin> set disponibili) obbligatori;
                 s2 = log_voci g VIGILI (map Vincolo_duro_manca mancanti) s1;
                 eccedono = (length disponibili_obbligatori0 > n_vigili);
                 s3 = (if eccedono then log_voce g VIGILI Vincoli_duri_eccedono s2 else s2);
                 disponibili_obbligatori =
                   (if eccedono then take n_vigili disponibili_obbligatori0
                    else disponibili_obbligatori0);
                 slot_rimanenti = n_vigili - length disponibili_obbligatori;
                 residui = filter (\<lambda>nome. nome \<notin> set disponibili_obbligatori) disponibili
             in if slot_rimanenti > length residui
                then Inr (None, log_voce g VIGILI
                                  (Impossibile_completare slot_rimanenti (length residui)) s3)
                else
                 (let combinazioni = (if slot_rimanenti > 0
                                      then combinations residui slot_rimanenti else [[]]);
                      (soluzioni, loggata, s4) =
                        valuta_combinazioni sch g autista_corrente disponibili_obbligatori
                          ci_sono_senior combinazioni s3
                  in if soluzioni = []
                     then Inr (None, log_voce g VIGILI Nessuna_combinazione s4)
                     else (case sort_key fst soluzioni of
                             [] \<Rightarrow> Inl IndexError
                           | (p, team, violazioni_soft) # altre \<Rightarrow>
                               Inr (Some team, conferma_squadra sch g r team violazioni_soft s4))))))"

definition aggiungi_varchi_venerdi ::
  "Scheduler \<Rightarrow> date \<Rightarrow> string list \<Rightarrow> Stato \<Rightarrow> string list \<times> Stato" where
  "aggiungi_varchi_venerdi sch g squadra s =
     (case autista_varchi sch of
        None \<Rightarrow> (squadra, s)
      | Some v \<Rightarrow>
          if v = [] then (squadra, s)
          else if v \<in> set squadra then (squadra, s)
          else if in_ferie sch v g then (squadra, log_voce g VIGILI (Varchi_ferie v) s)
          else if ha_raggiunto_limite sch (cont_vig s) v g
          then (squadra, log_voce g VIGILI (Varchi_limite v) s)
          else (let squadra1 = squadra @ [v];
                    s1 = s\<lparr>cont_vig := aggiungi (cont_vig s) v g\<rparr>;
                    s2 = s1\<lparr>squadre_visti :=
                              insert (set (filter (\<lambda>x. x \<noteq> []) squadra1)) (squadre_visti s1)\<rparr>
                in (squadra1, log_voce g VIGILI (Venerdi_speciale v) s2)))"

section \<open>One date\<close>

definition nomi_veri :: "string option \<Rightarrow> string set" where
  "nomi_veri x = (case x of None \<Rightarrow> {} | Some n \<Rightarrow> if n = [] then {} else {n})"

text \<open>
  \<^verbatim>\<open>_costruisci_per_data_internal\<close>; its parameter \<^verbatim>\<open>assegnazioni\<close> is never read and is
  left out. The result is the pair (assignment, real driver) and the state.
\<close>

definition costruisci_per_data_internal ::
  "Scheduler \<Rightarrow> date \<Rightarrow> string option \<Rightarrow> bool \<Rightarrow> Stato \<Rightarrow>
   errore + ((Assegnazione \<times> string option) \<times> Stato)" where
  "costruisci_per_data_internal sch g sabato_autista apply_varchi s =
     (let dow = weekday g;
          varchi = autista_varchi sch;
          pogliani = autista_pogliani sch;
          esclusioni0 = (if apply_varchi \<and> truthy varchi \<and> dow \<noteq> 4 then nomi_veri varchi else {});
          regola_sabato = (apply_varchi \<and> dow = 4 \<and> truthy varchi \<and> truthy pogliani \<and>
                           sabato_autista = pogliani);
          esclusioni_autista = (if regola_sabato then esclusioni0 \<union> nomi_veri varchi
                                else esclusioni0);
          s1 = (if regola_sabato then log_voce g AUTISTA (Regola_sabato pogliani varchi) s else s)
      in case scegli_autista sch g esclusioni_autista s1 of
           Inl e \<Rightarrow> Inl e
         | Inr (aut, s2) \<Rightarrow>
             (let include_varchi = (apply_varchi \<and> varchi_is_senior sch \<and> dow = 4 \<and>
                                    truthy varchi \<and>
                                    (pogliani = None \<or> sabato_autista \<noteq> pogliani));
                  sostituisci = (apply_varchi \<and> varchi_is_senior sch \<and> dow = 5 \<and>
                                 aut = pogliani \<and> truthy varchi);
                  display_autista = (if sostituisci then varchi else aut);
                  s3 = (if sostituisci then log_voce g AUTISTA (Visualizzo varchi pogliani) s2
                        else s2);
                  vigili_target = numero_vigili_previsti dow;
                  vigili_base = vigili_target - (if include_varchi then 1 else 0);
                  esclusioni_vigili =
                    nomi_veri aut \<union> (if apply_varchi then nomi_veri varchi else {})
              in case scegli_squadra_vigili sch g vigili_base aut esclusioni_vigili s3 of
                   Inl e \<Rightarrow> Inl e
                 | Inr (None, s4) \<Rightarrow>
                     Inr ((\<lparr>giorno = g, autista = aut, vigili = [None, None, None, None]\<rparr>, aut),
                          log_voce g VIGILI Turno_scoperto s4)
                 | Inr (Some squadra, s4) \<Rightarrow>
                     (let (squadra_list, s5) =
                            (if include_varchi then aggiungi_varchi_venerdi sch g squadra s4
                             else (squadra, s4));
                          riempita = map Some squadra_list @
                                     replicate (4 - length squadra_list) None
                      in Inr ((\<lparr>giorno = g, autista = display_autista,
                                 vigili = take 4 riempita\<rparr>, aut), s5))))"

definition turno_incompleto :: "Assegnazione \<Rightarrow> bool" where
  "turno_incompleto a \<longleftrightarrow> (if autista a = None then True else list_ex (\<lambda>v. v = None) (vigili a))"

text \<open>
  A Python \<^verbatim>\<open>dict\<close> that is iterated is an association list in insertion order;
  \<open>AList.update\<close> overwrites a key in place and appends a new one, as assignment to a
  dictionary entry does.
\<close>

definition trova_autista_settimanale ::
  "Stato \<Rightarrow> (date \<times> Assegnazione) list \<Rightarrow> date \<Rightarrow> int \<Rightarrow> string option" where
  "trova_autista_settimanale s assegnazioni g target_dow =
     (case find (\<lambda>(d, a). week_key d = week_key g \<and> weekday d = target_dow) assegnazioni of
        None \<Rightarrow> None
      | Some (d, a) \<Rightarrow> (case autisti_reali s d of Some reale \<Rightarrow> reale | None \<Rightarrow> autista a))"

definition costruisci_per_data ::
  "Scheduler \<Rightarrow> date \<Rightarrow> (date \<times> Assegnazione) list \<Rightarrow> Stato \<Rightarrow> errore + (Assegnazione \<times> Stato)" where
  "costruisci_per_data sch g assegnazioni s =
     (let sabato_autista = trova_autista_settimanale s assegnazioni g 5
      in case costruisci_per_data_internal sch g sabato_autista (enable_varchi_rule sch) s of
           Inl e \<Rightarrow> Inl e
         | Inr ((assegnazione, autista_reale), s1) \<Rightarrow>
             if enable_varchi_rule sch \<and> mode (rule_varchi sch) = SOFT \<and>
                turno_incompleto assegnazione
             then (case costruisci_per_data_internal sch g sabato_autista False
                          (log_voce g AUTISTA Deroga_varchi s1) of
                     Inl e \<Rightarrow> Inl e
                   | Inr ((assegnazione2, autista_reale2), s2) \<Rightarrow>
                       Inr (assegnazione2,
                            s2\<lparr>autisti_reali := (autisti_reali s2)(g \<mapsto> autista_reale2)\<rparr>))
             else Inr (assegnazione,
                       s1\<lparr>autisti_reali := (autisti_reali s1)(g \<mapsto> autista_reale)\<rparr>))"

text \<open>
  The entries of the decision log that record a retry without the special-rotation rule
  (\<^verbatim>\<open>"Deroga regola Varchi/Pogliani: ricompongo il turno senza il vincolo speciale."\<close>),
  in the order in which they were written. Not part of the program: an observation on its state, used to
  count the retries.
\<close>

definition riprove_registrate :: "Stato \<Rightarrow> voce list" where
  "riprove_registrate s = filter (\<lambda>v. snd (snd v) = Deroga_varchi) (log s)"

section \<open>The run\<close>

definition ordine_giorni :: "(int \<times> date) list \<Rightarrow> int list" where
  "ordine_giorni giorni =
     filter (\<lambda>dow. dow \<in> fst ` set giorni) [5, 4, 6] @
     filter (\<lambda>dow. dow \<notin> {4, 5, 6}) (sort (map fst giorni))"

text \<open>\<^verbatim>\<open>per_settimana.setdefault(self._week_key(giorno), []).append(giorno)\<close>, for every date,
  then every list sorted.\<close>

definition raggruppa_per_settimana :: "date list \<Rightarrow> ((int \<times> int) \<times> date list) list" where
  "raggruppa_per_settimana ds =
     map (\<lambda>(k, giorni). (k, sort giorni))
       (foldl (\<lambda>al g. AList.update (week_key g)
                        ((case map_of al (week_key g) of None \<Rightarrow> [] | Some l \<Rightarrow> l) @ [g]) al)
          [] ds)"

text \<open>\<^verbatim>\<open>{d.weekday(): d for d in giorni}\<close>.\<close>

definition giorni_per_dow :: "date list \<Rightarrow> (int \<times> date) list" where
  "giorni_per_dow giorni = foldl (\<lambda>al d. AList.update (weekday d) d al) [] giorni"

text \<open>The inner loop of \<^verbatim>\<open>costruisci\<close>, over the weekdays of one week in the order of
  \<^verbatim>\<open>_ordine_giorni\<close>; the lookup \<^verbatim>\<open>giorni_per_dow[dow]\<close> raises KeyError on a missing key.\<close>

fun costruisci_settimana ::
  "Scheduler \<Rightarrow> (int \<times> date) list \<Rightarrow> int list \<Rightarrow> (date \<times> Assegnazione) list \<times> Stato \<Rightarrow>
   errore + ((date \<times> Assegnazione) list \<times> Stato)" where
  "costruisci_settimana sch per_dow [] acc = Inr acc"
| "costruisci_settimana sch per_dow (dow # resto) (assegnazioni, s) =
     (case map_of per_dow dow of
        None \<Rightarrow> Inl KeyError
      | Some g \<Rightarrow>
          (case costruisci_per_data sch g assegnazioni s of
             Inl e \<Rightarrow> Inl e
           | Inr (a, s1) \<Rightarrow>
               costruisci_settimana sch per_dow resto (AList.update g a assegnazioni, s1)))"

text \<open>The outer loop, over the weeks sorted by key.\<close>

fun costruisci_settimane ::
  "Scheduler \<Rightarrow> ((int \<times> int) \<times> date list) list \<Rightarrow> (date \<times> Assegnazione) list \<times> Stato \<Rightarrow>
   errore + ((date \<times> Assegnazione) list \<times> Stato)" where
  "costruisci_settimane sch [] acc = Inr acc"
| "costruisci_settimane sch ((k, giorni) # resto) acc =
     (let per_dow = giorni_per_dow giorni
      in case costruisci_settimana sch per_dow (ordine_giorni per_dow) acc of
           Inl e \<Rightarrow> Inl e
         | Inr acc1 \<Rightarrow> costruisci_settimane sch resto acc1)"

text \<open>
  \<^verbatim>\<open>costruisci\<close>. The result \<^verbatim>\<open>[assegnazioni[d] for d in sorted(assegnazioni)]\<close> is the
  values of the dictionary in the order of its sorted keys. The final state is returned
  with it, for the log and the counters that \<^verbatim>\<open>runner.esegui\<close> reads afterwards.
\<close>

definition costruisci :: "Scheduler \<Rightarrow> Stato \<Rightarrow> errore + (Assegnazione list \<times> Stato)" where
  "costruisci sch s =
     (case costruisci_settimane sch (sort (raggruppa_per_settimana (date sch))) ([], s) of
        Inl e \<Rightarrow> Inl e
      | Inr (assegnazioni, s1) \<Rightarrow> Inr (map snd (sort_key fst assegnazioni), s1))"

text \<open>\<^verbatim>\<open>Scheduler(anno, config, months).costruisci()\<close>, as \<^verbatim>\<open>runner.esegui\<close> runs it, from a
  given state of the random generator.\<close>

definition esegui ::
  "int \<Rightarrow> ProgramConfig \<Rightarrow> int list option \<Rightarrow> (nat \<Rightarrow> nat) \<Rightarrow> errore + (Assegnazione list \<times> Stato)" where
  "esegui anno0 config months rnd =
     (case Scheduler_init anno0 config months of
        Inl e \<Rightarrow> Inl e
      | Inr sch \<Rightarrow> costruisci sch (stato_iniziale rnd))"

section \<open>Concrete configurations\<close>

text \<open>
  The configurations at which the theorems below evaluate the scheduler. Every roster is
  sorted and free of duplicates, every name is non-empty, and 2024 is the year.
  \<open>primo_turno\<close> is the first call of \<^verbatim>\<open>_costruisci_per_data\<close> that \<^verbatim>\<open>costruisci\<close> makes on a
  freshly constructed scheduler, for the date it processes first; \<open>due_turni\<close> adds the
  second call, on the dictionary and the state that the first one leaves.
\<close>

definition primo_turno ::
  "int \<Rightarrow> ProgramConfig \<Rightarrow> int list option \<Rightarrow> (nat \<Rightarrow> nat) \<Rightarrow> date \<Rightarrow> errore + (Assegnazione \<times> Stato)" where
  "primo_turno anno0 config months rnd g =
     (case Scheduler_init anno0 config months of
        Inl e \<Rightarrow> Inl e
      | Inr sch \<Rightarrow> costruisci_per_data sch g [] (stato_iniziale rnd))"

definition due_turni ::
  "int \<Rightarrow> ProgramConfig \<Rightarrow> int list option \<Rightarrow> (nat \<Rightarrow> nat) \<Rightarrow> date \<Rightarrow> date \<Rightarrow>
   errore + (Assegnazione \<times> Assegnazione \<times> Stato)" where
  "due_turni anno0 config months rnd g1 g2 =
     (case Scheduler_init anno0 config months of
        Inl e \<Rightarrow> Inl e
      | Inr sch \<Rightarrow>
          (case costruisci_per_data sch g1 [] (stato_iniziale rnd) of
             Inl e \<Rightarrow> Inl e
           | Inr (a1, s1) \<Rightarrow>
               (case costruisci_per_data sch g2 [(g1, a1)] s1 of
                  Inl e \<Rightarrow> Inl e
                | Inr (a2, s2) \<Rightarrow> Inr (a1, a2, s2))))"

text \<open>One driver D; crew A, B, C and the senior Varchi, who is the rotation driver; no
  linked driver; Fridays only; every rule at its default (hard).\<close>

definition config_base :: ProgramConfig where
  "config_base =
     \<lparr>cfg_autisti = [''D''], cfg_vigili = [''A'', ''B'', ''C'', ''Varchi''],
      cfg_esperienza_vigili = [''Varchi'' \<mapsto> ''SENIOR''], cfg_weekly_cap = Map.empty,
      coppie_vietate = [], coppie_preferite = [],
      cfg_autista_varchi = Some ''Varchi'', cfg_autista_pogliani = None,
      cfg_vigile_escluso_estate = None, cfg_min_esperti = 1,
      cfg_ferie = Map.empty, cfg_active_weekdays = {4}, cfg_enable_varchi_rule = True,
      generation_rules = []\<rparr>"

text \<open>As \<open>config_base\<close>, with the pair (A, Varchi) hard-forbidden.\<close>

definition config_coppia :: ProgramConfig where
  "config_coppia =
     config_base\<lparr>coppie_vietate := [\<lparr>primo = ''A'', secondo = ''Varchi'', is_hard = True\<rparr>]\<rparr>"

text \<open>As \<open>config_base\<close>, with Varchi as the only driver.\<close>

definition config_varchi_guida :: ProgramConfig where
  "config_varchi_guida = config_base\<lparr>cfg_autisti := [''Varchi'']\<rparr>"

text \<open>As \<open>config_base\<close>, on Saturdays.\<close>

definition config_sabato :: ProgramConfig where
  "config_sabato = config_base\<lparr>cfg_active_weekdays := {5}\<rparr>"

text \<open>As \<open>config_sabato\<close>, with the special-rotation rule in soft mode.\<close>

definition config_sabato_soft :: ProgramConfig where
  "config_sabato_soft =
     config_sabato\<lparr>generation_rules := [(''varchi_rotation'', \<lparr>mode = SOFT, value = None\<rparr>)]\<rparr>"

text \<open>Saturdays; Varchi is the only driver; crew A, B, C, E and Varchi.\<close>

definition config_nessun_autista :: ProgramConfig where
  "config_nessun_autista =
     config_base\<lparr>cfg_autisti := [''Varchi''],
                 cfg_vigili := [''A'', ''B'', ''C'', ''E'', ''Varchi''],
                 cfg_active_weekdays := {5}\<rparr>"

text \<open>No rotation rule; the minimum-seniors rule off with value 1; crew A, B, C, D and the
  senior S, who is hard-forbidden with A and with B.\<close>

definition config_senior_off :: ProgramConfig where
  "config_senior_off =
     \<lparr>cfg_autisti = [''P''], cfg_vigili = [''A'', ''B'', ''C'', ''D'', ''S''],
      cfg_esperienza_vigili = [''S'' \<mapsto> ''SENIOR''], cfg_weekly_cap = Map.empty,
      coppie_vietate = [\<lparr>primo = ''A'', secondo = ''S'', is_hard = True\<rparr>,
                        \<lparr>primo = ''B'', secondo = ''S'', is_hard = True\<rparr>],
      coppie_preferite = [],
      cfg_autista_varchi = None, cfg_autista_pogliani = None,
      cfg_vigile_escluso_estate = None, cfg_min_esperti = 1,
      cfg_ferie = Map.empty, cfg_active_weekdays = {5}, cfg_enable_varchi_rule = False,
      generation_rules = [(''min_senior'', \<lparr>mode = OFF, value = Some 1\<rparr>)]\<rparr>"

text \<open>No rotation rule; Saturdays and Sundays; P is both the only driver and a crew member,
  with weekly cap 1; A, B, C have cap 0.\<close>

definition config_doppio_ruolo :: ProgramConfig where
  "config_doppio_ruolo =
     \<lparr>cfg_autisti = [''P''], cfg_vigili = [''A'', ''B'', ''C'', ''P''],
      cfg_esperienza_vigili = Map.empty,
      cfg_weekly_cap = [''A'' \<mapsto> 0, ''B'' \<mapsto> 0, ''C'' \<mapsto> 0, ''P'' \<mapsto> 1],
      coppie_vietate = [], coppie_preferite = [],
      cfg_autista_varchi = None, cfg_autista_pogliani = None,
      cfg_vigile_escluso_estate = None, cfg_min_esperti = 1,
      cfg_ferie = Map.empty, cfg_active_weekdays = {5, 6}, cfg_enable_varchi_rule = False,
      generation_rules = []\<rparr>"

text \<open>As \<open>config_base\<close>, with Varchi also a driver and a negative cap configured for Varchi,
  who is then driver, crew member and rotation driver at once.\<close>

definition config_cap_negativo :: ProgramConfig where
  "config_cap_negativo =
     config_base\<lparr>cfg_autisti := [''D'', ''Varchi''], cfg_weekly_cap := [''Varchi'' \<mapsto> - 3]\<rparr>"

text \<open>No rotation rule; the weekly-cap rule off; one driver P; crew A, B, C, D, E, each with the
  default weekly cap 1; Saturdays and Sundays.\<close>

definition config_limite_off :: ProgramConfig where
  "config_limite_off =
     \<lparr>cfg_autisti = [''P''], cfg_vigili = [''A'', ''B'', ''C'', ''D'', ''E''],
      cfg_esperienza_vigili = Map.empty, cfg_weekly_cap = Map.empty,
      coppie_vietate = [], coppie_preferite = [],
      cfg_autista_varchi = None, cfg_autista_pogliani = None,
      cfg_vigile_escluso_estate = None, cfg_min_esperti = 1,
      cfg_ferie = Map.empty, cfg_active_weekdays = {5, 6}, cfg_enable_varchi_rule = False,
      generation_rules = [(''weekly_cap'', \<lparr>mode = OFF, value = None\<rparr>)]\<rparr>"

section \<open>Construction of the scheduler\<close>

lemma merge_with_defaults_keys:
  "\<exists>r. merge_with_defaults custom ''min_senior'' = Some r"
  "\<exists>r. merge_with_defaults custom ''weekly_cap'' = Some r"
  "\<exists>r. merge_with_defaults custom ''summer_exclusion'' = Some r"
  "\<exists>r. merge_with_defaults custom ''varchi_rotation'' = Some r"
  by (simp_all add: merge_with_defaults_def build_default_rules_def RULE_DEFINITIONS_def Let_def
        split: option.splits)

lemma date_attive_anno_ok:
  "1 \<le> anno0 \<Longrightarrow> anno0 \<le> 9998 \<Longrightarrow> \<exists>ds. date_attive_anno anno0 w m = Inr ds"
  by (simp add: date_attive_anno_def Let_def)

lemma Scheduler_init_Inr:
  assumes "Scheduler_init anno0 config months = Inr sch"
  shows "\<exists>r1 r2 r3 r4 W M ds.
           merge_with_defaults (generation_rules config) ''min_senior'' = Some r1 \<and>
           merge_with_defaults (generation_rules config) ''weekly_cap'' = Some r2 \<and>
           merge_with_defaults (generation_rules config) ''summer_exclusion'' = Some r3 \<and>
           merge_with_defaults (generation_rules config) ''varchi_rotation'' = Some r4 \<and>
           date_attive_anno anno0 W (Some M) = Inr ds \<and>
           sch = Scheduler_campi anno0 config r1 r2 r3 r4 W M ds"
proof -
  define W where "W = (if cfg_active_weekdays config = {} then DEFAULT_ACTIVE_WEEKDAYS
                       else cfg_active_weekdays config)"
  define M0 where "M0 = (case months of
                       None \<Rightarrow> {1..12}
                     | Some ms \<Rightarrow> if ms = [] then {1..12}
                                  else {m \<in> set ms. 1 \<le> m \<and> m \<le> 12})"
  define M where "M = (if M0 = {} then {1..12::int} else M0)"
  from assms show ?thesis
    unfolding Scheduler_init_def Let_def W_def[symmetric] M0_def[symmetric] M_def[symmetric]
    by (cases "merge_with_defaults (generation_rules config) ''min_senior''";
        cases "merge_with_defaults (generation_rules config) ''weekly_cap''";
        cases "merge_with_defaults (generation_rules config) ''summer_exclusion''";
        cases "merge_with_defaults (generation_rules config) ''varchi_rotation''";
        cases "date_attive_anno anno0 W (Some M)") auto
qed

text \<open>The constructor succeeds for every year that \<^verbatim>\<open>date\<close> can step through.\<close>

lemma Scheduler_init_ok:
  assumes "1 \<le> anno0" "anno0 \<le> 9998"
  shows "\<exists>sch. Scheduler_init anno0 config months = Inr sch"
proof -
  obtain r1 where r1: "merge_with_defaults (generation_rules config) ''min_senior'' = Some r1"
    using merge_with_defaults_keys(1) by blast
  obtain r2 where r2: "merge_with_defaults (generation_rules config) ''weekly_cap'' = Some r2"
    using merge_with_defaults_keys(2) by blast
  obtain r3 where r3: "merge_with_defaults (generation_rules config) ''summer_exclusion'' = Some r3"
    using merge_with_defaults_keys(3) by blast
  obtain r4 where r4: "merge_with_defaults (generation_rules config) ''varchi_rotation'' = Some r4"
    using merge_with_defaults_keys(4) by blast
  show ?thesis
    unfolding Scheduler_init_def Let_def r1 r2 r3 r4
    using date_attive_anno_ok[OF assms]
    by (simp split: sum.splits) (metis Inl_Inr_False)
qed

lemma Scheduler_init_projr:
  "1 \<le> anno0 \<Longrightarrow> anno0 \<le> 9998 \<Longrightarrow>
   Scheduler_init anno0 config months = Inr (projr (Scheduler_init anno0 config months))"
  using Scheduler_init_ok[of anno0 config months] by auto

lemma Scheduler_init_weekly_cap:
  assumes "Scheduler_init anno0 config months = Inr sch"
  shows "weekly_cap sch nome = map_option (max 0) (cfg_weekly_cap config nome)"
    and "default_weekly_cap sch = 1"
  using Scheduler_init_Inr[OF assms]
  by (auto simp: Scheduler_campi_def Let_def DEFAULT_WEEKLY_CAP_def)

lemma Scheduler_init_campi:
  assumes "Scheduler_init anno0 config months = Inr sch"
  shows "autisti sch = sort (cfg_autisti config)"
    and "vigili_sch sch = sort (cfg_vigili config)"
    and "forbidden_hard sch =
           (\<lambda>rule. {primo rule, secondo rule}) ` set (filter is_hard (coppie_vietate config))"
    and "forbidden_soft sch =
           (\<lambda>rule. {primo rule, secondo rule}) `
             set (filter (\<lambda>rule. \<not> is_hard rule) (coppie_vietate config))"
    and "preferenze_hard sch a =
           remdups (map pr_vigile (filter (\<lambda>rule. pr_is_hard rule \<and> pr_autista rule = a)
                      (coppie_preferite config)))"
    and "preferenze_soft sch a =
           remdups (map pr_vigile (filter (\<lambda>rule. \<not> pr_is_hard rule \<and> pr_autista rule = a)
                      (coppie_preferite config)))"
    and "Some (rule_min_senior sch) = merge_with_defaults (generation_rules config) ''min_senior''"
    and "Some (rule_weekly_cap sch) = merge_with_defaults (generation_rules config) ''weekly_cap''"
    and "Some (rule_summer sch) = merge_with_defaults (generation_rules config) ''summer_exclusion''"
    and "Some (rule_varchi sch) = merge_with_defaults (generation_rules config) ''varchi_rotation''"
    and "enable_varchi_rule sch = (cfg_enable_varchi_rule config \<and> mode (rule_varchi sch) \<noteq> OFF)"
    and "autista_varchi sch = (if enable_varchi_rule sch then cfg_autista_varchi config else None)"
    and "autista_pogliani sch = (if enable_varchi_rule sch then cfg_autista_pogliani config else None)"
    and "vigile_escluso_estate sch =
           (if mode (rule_summer sch) \<noteq> OFF then cfg_vigile_escluso_estate config else None)"
    and "min_esperti sch =
           max 0 (case value (rule_min_senior sch) of Some v \<Rightarrow> v | None \<Rightarrow> cfg_min_esperti config)"
    and "ferie sch = cfg_ferie config"
    and "is_senior sch n \<longleftrightarrow>
           n \<in> set (cfg_vigili config) \<and>
           esperienza_get (cfg_esperienza_vigili config) n = LIV_SENIOR"
    and "varchi_is_senior sch =
           (enable_varchi_rule sch \<and>
            (case autista_varchi sch of None \<Rightarrow> False | Some v \<Rightarrow> is_senior sch v))"
proof -
  obtain r1 r2 r3 r4 W M ds where
    r: "merge_with_defaults (generation_rules config) ''min_senior'' = Some r1"
       "merge_with_defaults (generation_rules config) ''weekly_cap'' = Some r2"
       "merge_with_defaults (generation_rules config) ''summer_exclusion'' = Some r3"
       "merge_with_defaults (generation_rules config) ''varchi_rotation'' = Some r4"
    and sch: "sch = Scheduler_campi anno0 config r1 r2 r3 r4 W M ds"
    using Scheduler_init_Inr[OF assms] by blast
  show "autisti sch = sort (cfg_autisti config)"
    and "vigili_sch sch = sort (cfg_vigili config)"
    and "forbidden_hard sch =
           (\<lambda>rule. {primo rule, secondo rule}) ` set (filter is_hard (coppie_vietate config))"
    and "forbidden_soft sch =
           (\<lambda>rule. {primo rule, secondo rule}) `
             set (filter (\<lambda>rule. \<not> is_hard rule) (coppie_vietate config))"
    and "preferenze_hard sch a =
           remdups (map pr_vigile (filter (\<lambda>rule. pr_is_hard rule \<and> pr_autista rule = a)
                      (coppie_preferite config)))"
    and "preferenze_soft sch a =
           remdups (map pr_vigile (filter (\<lambda>rule. \<not> pr_is_hard rule \<and> pr_autista rule = a)
                      (coppie_preferite config)))"
    and "Some (rule_min_senior sch) = merge_with_defaults (generation_rules config) ''min_senior''"
    and "Some (rule_weekly_cap sch) = merge_with_defaults (generation_rules config) ''weekly_cap''"
    and "Some (rule_summer sch) = merge_with_defaults (generation_rules config) ''summer_exclusion''"
    and "Some (rule_varchi sch) = merge_with_defaults (generation_rules config) ''varchi_rotation''"
    and "enable_varchi_rule sch = (cfg_enable_varchi_rule config \<and> mode (rule_varchi sch) \<noteq> OFF)"
    and "autista_varchi sch = (if enable_varchi_rule sch then cfg_autista_varchi config else None)"
    and "autista_pogliani sch = (if enable_varchi_rule sch then cfg_autista_pogliani config else None)"
    and "vigile_escluso_estate sch =
           (if mode (rule_summer sch) \<noteq> OFF then cfg_vigile_escluso_estate config else None)"
    and "min_esperti sch =
           max 0 (case value (rule_min_senior sch) of Some v \<Rightarrow> v | None \<Rightarrow> cfg_min_esperti config)"
    and "ferie sch = cfg_ferie config"
    unfolding sch r by (simp_all add: Scheduler_campi_def Let_def)
  show "is_senior sch n \<longleftrightarrow>
           n \<in> set (cfg_vigili config) \<and>
           esperienza_get (cfg_esperienza_vigili config) n = LIV_SENIOR"
    unfolding sch by (simp add: Scheduler_campi_def Let_def is_senior_def esperienza_get_def LIV_SENIOR_def LIV_JUNIOR_def)
  show "varchi_is_senior sch =
           (enable_varchi_rule sch \<and>
            (case autista_varchi sch of None \<Rightarrow> False | Some v \<Rightarrow> is_senior sch v))"
    unfolding sch
    by (simp add: Scheduler_campi_def Let_def is_senior_def esperienza_get_def LIV_SENIOR_def LIV_JUNIOR_def split: option.splits)
qed

section \<open>Evaluation at concrete dates\<close>

text \<open>
  5, 6 and 7 January 2024 are a Friday, a Saturday and a Sunday of ISO week 1 of 2024.
  The lemma collections below unfold one method each; a date is evaluated method by
  method, on the scheduler that \<open>Scheduler_init\<close> returns.
\<close>

lemma weekday_2024_01 [simp]:
  "weekday (2024, 1, 5) = 4" "weekday (2024, 1, 6) = 5" "weekday (2024, 1, 7) = 6"
  by code_simp+

lemma week_key_2024_01 [simp]:
  "week_key (2024, 1, 5) = (2024, 1)" "week_key (2024, 1, 6) = (2024, 1)"
  "week_key (2024, 1, 7) = (2024, 1)"
  by code_simp+

lemma month_simp [simp]: "month (y, m, d) = m"
  by (simp add: month_def)

lemma sort_rosters:
  "sort [''A'', ''B'', ''C'', ''Varchi''] = [''A'', ''B'', ''C'', ''Varchi'']"
  "sort [''A'', ''B'', ''C'', ''D'', ''S''] = [''A'', ''B'', ''C'', ''D'', ''S'']"
  "sort [''A'', ''B'', ''C'', ''P''] = [''A'', ''B'', ''C'', ''P'']"
  "sort [''A'', ''B'', ''C'', ''E'', ''Varchi''] = [''A'', ''B'', ''C'', ''E'', ''Varchi'']"
  by code_simp+

lemma combinations_numeral:
  "combinations xs 2 = combinations xs (Suc (Suc 0))"
  "combinations xs 3 = combinations xs (Suc (Suc (Suc 0)))"
  "combinations xs 4 = combinations xs (Suc (Suc (Suc (Suc 0))))"
  by (simp_all add: numeral_2_eq_2 numeral_3_eq_3 eval_nat_numeral)

lemma merge_with_defaults_Nil [simp]: "merge_with_defaults [] = build_default_rules"
  by (simp add: merge_with_defaults_def)

lemma build_default_rules_simps [simp]:
  "build_default_rules ''min_senior'' = Some \<lparr>mode = HARD, value = Some 1\<rparr>"
  "build_default_rules ''weekly_cap'' = Some \<lparr>mode = HARD, value = None\<rparr>"
  "build_default_rules ''summer_exclusion'' = Some \<lparr>mode = HARD, value = None\<rparr>"
  "build_default_rules ''varchi_rotation'' = Some \<lparr>mode = HARD, value = None\<rparr>"
  by (simp_all add: build_default_rules_def RULE_DEFINITIONS_def)

lemmas config_defs = config_base_def config_coppia_def config_varchi_guida_def config_sabato_def
  config_sabato_soft_def config_nessun_autista_def config_senior_off_def config_doppio_ruolo_def
  config_cap_negativo_def

lemmas campi_simps = sort_rosters esperienza_get_def LIV_SENIOR_def LIV_JUNIOR_def
  merge_with_defaults_def RULE_DEFINITIONS_def Let_def

lemmas conteggi_defs = Conteggi_vuoti_def aggiungi_def tot_settimana_def tot_mese_def
  tot_annuale_def tot_mese_giorno_def tot_giorno_anno_def ultimo_dow_def

lemmas autista_defs = scegli_autista_def candidati_autista_def in_ferie_def
  limite_raggiunto_raw_def limite_settimanale_def chiave_autista_def random_chiavi_def
  log_voce_def Let_def conteggi_defs

lemmas squadra_defs = scegli_squadra_vigili_def raccogli_candidati_def raccogli_passo_def
  Raccolta_vuota_def summer_block_def truthy_def in_ferie_def limite_raggiunto_raw_def
  limite_settimanale_def preferenze_obbligatorie_def preferenze_soft_di_def
  valuta_combinazioni_def valuta_passo_def hard_vietata_def calcola_punteggio_def
  conferma_squadra_def random_random_def log_voce_def log_voci_def Let_def
  combinations_numeral doubleton_eq_iff conteggi_defs

lemmas varchi_defs = aggiungi_varchi_venerdi_def in_ferie_def ha_raggiunto_limite_def
  limite_raggiunto_raw_def limite_settimanale_def log_voce_def Let_def conteggi_defs

lemmas data_defs = costruisci_per_data_def trova_autista_settimanale_def
  costruisci_per_data_internal_def truthy_def nomi_veri_def numero_vigili_previsti_def
  turno_incompleto_def log_voce_def Let_def

section \<open>The candidate loop of the crew selector\<close>

text \<open>
  What the loop of \<open>raccogli_candidati\<close> computes: the two candidate lists are the roster
  filtered by \<open>ammesso\<close> and split by \<open>rinviato\<close>, in roster order, and \<open>limit_map\<close> records the
  raw cap flag of every admitted name.
\<close>

lemma raccogli_passo_liste:
  "candidati_base (raccogli_passo sch c g E r nome) =
     candidati_base r @ (if ammesso sch c g E nome \<and> \<not> rinviato sch c g nome then [nome] else [])"
  "fallback_candidates (raccogli_passo sch c g E r nome) =
     fallback_candidates r @ (if ammesso sch c g E nome \<and> rinviato sch c g nome then [nome] else [])"
  by (auto simp: raccogli_passo_def ammesso_def rinviato_def Let_def)

lemma foldl_raccogli_liste:
  "candidati_base (foldl (raccogli_passo sch c g E) r nomi) =
     candidati_base r @ filter (\<lambda>n. ammesso sch c g E n \<and> \<not> rinviato sch c g n) nomi"
  "fallback_candidates (foldl (raccogli_passo sch c g E) r nomi) =
     fallback_candidates r @ filter (\<lambda>n. ammesso sch c g E n \<and> rinviato sch c g n) nomi"
  by (induction nomi arbitrary: r) (simp_all add: raccogli_passo_liste)

lemma raccogli_candidati_liste:
  "candidati_base (raccogli_candidati sch c g E nomi) =
     filter (\<lambda>n. ammesso sch c g E n \<and> \<not> rinviato sch c g n) nomi"
  "fallback_candidates (raccogli_candidati sch c g E nomi) =
     filter (\<lambda>n. ammesso sch c g E n \<and> rinviato sch c g n) nomi"
  by (simp_all add: raccogli_candidati_def foldl_raccogli_liste Raccolta_vuota_def)

lemma raccogli_passo_limit_map:
  "limit_map (raccogli_passo sch c g E r nome) =
     (if ammesso sch c g E nome then (limit_map r)(nome \<mapsto> limite_raggiunto_raw sch c nome g)
      else limit_map r)"
  by (auto simp: raccogli_passo_def ammesso_def Let_def)

lemma foldl_raccogli_limit_map:
  "limit_map (foldl (raccogli_passo sch c g E) r nomi) n =
     (if n \<in> set nomi \<and> ammesso sch c g E n then Some (limite_raggiunto_raw sch c n g)
      else limit_map r n)"
  by (induction nomi arbitrary: r) (auto simp: raccogli_passo_limit_map)

lemma raccogli_candidati_limit_map:
  "limit_map (raccogli_candidati sch c g E nomi) n =
     (if n \<in> set nomi \<and> ammesso sch c g E n then Some (limite_raggiunto_raw sch c n g)
      else None)"
  by (simp add: raccogli_candidati_def foldl_raccogli_limit_map Raccolta_vuota_def)

lemma set_combinations: "ys \<in> set (combinations xs k) \<Longrightarrow> set ys \<subseteq> set xs"
  by (induction xs k arbitrary: ys rule: combinations.induct) fastforce+

section \<open>Weekly caps that are zero or negative\<close>

text \<open>
  Claim C9. A person whose configured weekly cap is zero or negative has the cap 0 in the
  scheduler that \<^verbatim>\<open>__init__\<close> builds (negative caps are clamped), and for such a person
  neither \<^verbatim>\<open>_limite_raggiunto_raw\<close> nor \<^verbatim>\<open>_ha_raggiunto_limite\<close> ever reports the limit as
  reached, whatever the counters, the date and the mode of the weekly-cap rule. So the person is
  never filtered or demoted on cap grounds, whatever the counters and the modes of the rules:
  \<^item> in the candidate loop of \<^verbatim>\<open>_scegli_autista\<close> the person is a candidate exactly when they
    are a driver, not excluded and not on leave, and always with the cap flag \<^verbatim>\<open>False\<close> (the flag
    that would put them last in the ranking);
  \<^item> in the candidate loop of \<^verbatim>\<open>_scegli_squadra_vigili\<close> the person is in \<^verbatim>\<open>candidati_base\<close>
    exactly when they are in the roster, not excluded, not on leave and not blocked by the
    summer rule; they are in \<^verbatim>\<open>fallback_candidates\<close> only through the summer rule; and their
    entry of \<^verbatim>\<open>limit_map\<close> is never \<^verbatim>\<open>True\<close>;
  \<^item> as rotation driver on a Friday, when not already in the crew and not on leave, the person
    is always appended by \<^verbatim>\<open>_aggiungi_varchi_venerdi\<close>: its cap branch is never taken.
\<close>

theorem cap_non_positivo_mai_raggiunto:
  assumes "Scheduler_init anno0 config months = Inr sch"
    and "cfg_weekly_cap config p = Some c" and "c \<le> 0"
  shows "weekly_cap sch p = Some 0 \<and>
         \<not> limite_raggiunto_raw sch conteggi p g \<and>
         \<not> ha_raggiunto_limite sch conteggi p g \<and>
         ((p, b) \<in> set (candidati_autista sch s g esclusioni) \<longleftrightarrow>
            p \<in> set (autisti sch) \<and> p \<notin> esclusioni \<and> \<not> in_ferie sch p g \<and> \<not> b) \<and>
         (p \<in> set (candidati_base (raccogli_candidati sch conteggi g esclusioni nomi)) \<longleftrightarrow>
            p \<in> set nomi \<and> p \<notin> esclusioni \<and> \<not> in_ferie sch p g \<and>
            \<not> summer_block sch p (month g)) \<and>
         (p \<in> set (fallback_candidates (raccogli_candidati sch conteggi g esclusioni nomi)) \<longleftrightarrow>
            p \<in> set nomi \<and> p \<notin> esclusioni \<and> \<not> in_ferie sch p g \<and>
            summer_block sch p (month g) \<and> mode (rule_summer sch) \<noteq> HARD) \<and>
         limit_map (raccogli_candidati sch conteggi g esclusioni nomi) p \<noteq> Some True \<and>
         (autista_varchi sch = Some p \<and> p \<noteq> [] \<and> p \<notin> set squadra \<and> \<not> in_ferie sch p g \<longrightarrow>
            fst (aggiungi_varchi_venerdi sch g squadra s) = squadra @ [p])"
proof -
  have w: "weekly_cap sch p = Some 0"
    using Scheduler_init_weekly_cap(1)[OF assms(1), of p] assms(2,3) by simp
  have raw: "\<not> limite_raggiunto_raw sch k p d" for k d
    using w by (simp add: limite_raggiunto_raw_def limite_settimanale_def)
  have ha: "\<not> ha_raggiunto_limite sch k p d" for k d
    using raw by (simp add: ha_raggiunto_limite_def Let_def)
  have aut: "(p, b) \<in> set (candidati_autista sch s g esclusioni) \<longleftrightarrow>
               p \<in> set (autisti sch) \<and> p \<notin> esclusioni \<and> \<not> in_ferie sch p g \<and> \<not> b"
    using raw by (auto simp: candidati_autista_def Let_def split: if_splits)
  have base: "p \<in> set (candidati_base (raccogli_candidati sch conteggi g esclusioni nomi)) \<longleftrightarrow>
            p \<in> set nomi \<and> p \<notin> esclusioni \<and> \<not> in_ferie sch p g \<and>
            \<not> summer_block sch p (month g)"
    using raw by (auto simp: raccogli_candidati_liste ammesso_def rinviato_def)
  have fb: "p \<in> set (fallback_candidates (raccogli_candidati sch conteggi g esclusioni nomi)) \<longleftrightarrow>
            p \<in> set nomi \<and> p \<notin> esclusioni \<and> \<not> in_ferie sch p g \<and>
            summer_block sch p (month g) \<and> mode (rule_summer sch) \<noteq> HARD"
    using raw by (auto simp: raccogli_candidati_liste ammesso_def rinviato_def)
  have lm: "limit_map (raccogli_candidati sch conteggi g esclusioni nomi) p \<noteq> Some True"
    using raw by (simp add: raccogli_candidati_limit_map)
  have av: "autista_varchi sch = Some p \<and> p \<noteq> [] \<and> p \<notin> set squadra \<and> \<not> in_ferie sch p g \<longrightarrow>
            fst (aggiungi_varchi_venerdi sch g squadra s) = squadra @ [p]"
    using ha by (simp add: aggiungi_varchi_venerdi_def Let_def)
  show ?thesis using w raw ha aut base fb lm av by blast
qed

text \<open>The theorem at a configured cap of -3, on Friday 2024-01-05, with one assignment of the
  same ISO week already counted in both roles.\<close>

theorem cap_non_positivo_mai_raggiunto_witness:
  "Scheduler_init 2024 config_cap_negativo None =
     Inr (projr (Scheduler_init 2024 config_cap_negativo None)) \<and>
   cfg_weekly_cap config_cap_negativo ''Varchi'' = Some (- 3) \<and> (- 3 :: int) \<le> 0 \<and>
   weekly_cap (projr (Scheduler_init 2024 config_cap_negativo None)) ''Varchi'' = Some 0 \<and>
   \<not> limite_raggiunto_raw (projr (Scheduler_init 2024 config_cap_negativo None))
       (aggiungi Conteggi_vuoti ''Varchi'' (2024, 1, 1)) ''Varchi'' (2024, 1, 5) \<and>
   \<not> ha_raggiunto_limite (projr (Scheduler_init 2024 config_cap_negativo None))
       (aggiungi Conteggi_vuoti ''Varchi'' (2024, 1, 1)) ''Varchi'' (2024, 1, 5) \<and>
   (''Varchi'', False) \<in> set (candidati_autista (projr (Scheduler_init 2024 config_cap_negativo None))
       ((stato_iniziale (\<lambda>_. 0))\<lparr>cont_aut := aggiungi Conteggi_vuoti ''Varchi'' (2024, 1, 1),
                                  cont_vig := aggiungi Conteggi_vuoti ''Varchi'' (2024, 1, 1)\<rparr>)
       (2024, 1, 5) {}) \<and>
   ''Varchi'' \<in> set (candidati_base (raccogli_candidati (projr (Scheduler_init 2024 config_cap_negativo None))
       (aggiungi Conteggi_vuoti ''Varchi'' (2024, 1, 1)) (2024, 1, 5) {}
       (vigili_sch (projr (Scheduler_init 2024 config_cap_negativo None))))) \<and>
   ''Varchi'' \<notin> set (fallback_candidates (raccogli_candidati (projr (Scheduler_init 2024 config_cap_negativo None))
       (aggiungi Conteggi_vuoti ''Varchi'' (2024, 1, 1)) (2024, 1, 5) {}
       (vigili_sch (projr (Scheduler_init 2024 config_cap_negativo None))))) \<and>
   fst (aggiungi_varchi_venerdi (projr (Scheduler_init 2024 config_cap_negativo None)) (2024, 1, 5)
          [''A'', ''B'', ''C'']
          ((stato_iniziale (\<lambda>_. 0))\<lparr>cont_aut := aggiungi Conteggi_vuoti ''Varchi'' (2024, 1, 1),
                                     cont_vig := aggiungi Conteggi_vuoti ''Varchi'' (2024, 1, 1)\<rparr>)) =
     [''A'', ''B'', ''C'', ''Varchi'']"
proof -
  define sch where "sch = projr (Scheduler_init 2024 config_cap_negativo None)"
  have h: "Scheduler_init 2024 config_cap_negativo None = Inr sch"
    unfolding sch_def by (rule Scheduler_init_projr) simp_all
  have c: "cfg_weekly_cap config_cap_negativo ''Varchi'' = Some (- 3)"
    by (simp add: config_cap_negativo_def)
  have n: "(- 3 :: int) \<le> 0" by simp
  note k = Scheduler_init_campi[OF h]
  have r: "rule_summer sch = \<lparr>mode = HARD, value = None\<rparr>"
          "rule_varchi sch = \<lparr>mode = HARD, value = None\<rparr>"
    using k(7-10) by (simp_all add: config_defs)
  have so: "sort [''D'', ''Varchi''] = [''D'', ''Varchi'']" by code_simp
  have f: "autisti sch = [''D'', ''Varchi'']"
          "vigili_sch sch = [''A'', ''B'', ''C'', ''Varchi'']"
          "autista_varchi sch = Some ''Varchi''"
          "vigile_escluso_estate sch = None"
          "ferie sch = Map.empty"
    by (simp_all add: k r config_defs sort_rosters so)
  have nf: "\<not> in_ferie sch ''Varchi'' (2024, 1, 5)"
    by (simp add: in_ferie_def f)
  have nb: "\<not> summer_block sch ''Varchi'' (month (2024, 1, 5))"
    by (simp add: summer_block_def f truthy_def)
  show ?thesis
    unfolding sch_def[symmetric]
    using h c n nf nb f
      cap_non_positivo_mai_raggiunto [OF h c n, where conteggi = "aggiungi Conteggi_vuoti ''Varchi'' (2024, 1, 1)"
        and g = "(2024, 1, 5)" and b = False and esclusioni = "{}"
        and nomi = "vigili_sch sch" and squadra = "[''A'', ''B'', ''C'']"
        and s = "(stato_iniziale (\<lambda>_. 0))\<lparr>cont_aut := aggiungi Conteggi_vuoti ''Varchi'' (2024, 1, 1),
                                  cont_vig := aggiungi Conteggi_vuoti ''Varchi'' (2024, 1, 1)\<rparr>"]
    by simp
qed

section \<open>The weekly-cap rule switched off\<close>

text \<open>
  Two facts about \<open>scegli_squadra_vigili\<close> on which the theorem of this section rests: every
  team that \<open>valuta_combinazioni\<close> keeps is the mandatory members followed by one of the
  combinations it was given, and the selector only ever appends to the log.
\<close>

lemma valuta_passo_squadre:
  assumes "sol \<in> set (fst (valuta_passo sch g aut obbl css acc extra))"
  shows "sol \<in> set (fst acc) \<or> fst (snd sol) = obbl @ extra"
  using assms
  by (cases acc) (auto simp: valuta_passo_def Let_def split_beta split: if_splits)

lemma foldl_valuta_squadre:
  assumes "sol \<in> set (fst (foldl (valuta_passo sch g aut obbl css) acc combinazioni))"
  shows "sol \<in> set (fst acc) \<or> (\<exists>extra \<in> set combinazioni. fst (snd sol) = obbl @ extra)"
  using assms
proof (induction combinazioni arbitrary: acc)
  case Nil
  then show ?case by simp
next
  case (Cons extra resto)
  from Cons.IH[OF Cons.prems[simplified]] show ?case
    using valuta_passo_squadre by fastforce
qed

lemma valuta_combinazioni_squadre:
  assumes "sol \<in> set (fst (valuta_combinazioni sch g aut obbl css combinazioni s))"
  shows "\<exists>extra \<in> set combinazioni. fst (snd sol) = obbl @ extra"
  using foldl_valuta_squadre[OF assms[unfolded valuta_combinazioni_def]] by simp

lemma valuta_passo_log:
  "\<exists>voci. log (snd (snd (valuta_passo sch g aut obbl css acc extra))) = log (snd (snd acc)) @ voci"
  by (cases acc) (auto simp: valuta_passo_def Let_def split_beta log_voce_def random_random_def)

lemma foldl_valuta_log:
  "\<exists>voci. log (snd (snd (foldl (valuta_passo sch g aut obbl css) acc combinazioni))) =
          log (snd (snd acc)) @ voci"
proof (induction combinazioni arbitrary: acc)
  case Nil
  then show ?case by simp
next
  case (Cons extra resto)
  obtain v1 where v1: "log (snd (snd (valuta_passo sch g aut obbl css acc extra))) =
                         log (snd (snd acc)) @ v1"
    using valuta_passo_log by blast
  obtain v2 where "log (snd (snd (foldl (valuta_passo sch g aut obbl css)
                          (valuta_passo sch g aut obbl css acc extra) resto))) =
                   log (snd (snd (valuta_passo sch g aut obbl css acc extra))) @ v2"
    using Cons.IH by blast
  then show ?case using v1 by simp
qed

lemma valuta_combinazioni_log:
  "\<exists>voci. log (snd (snd (valuta_combinazioni sch g aut obbl css combinazioni s))) = log s @ voci"
  using foldl_valuta_log[of sch g aut obbl css "([], False, s)" combinazioni]
  by (simp add: valuta_combinazioni_def)

lemma conferma_squadra_log:
  "\<exists>voci. log (conferma_squadra sch g r team v s) = log s @ voci"
  by (simp add: conferma_squadra_def Let_def log_voce_def log_voci_def)

text \<open>
  The outcome of \<open>scegli_squadra_vigili\<close>: a team it returns is drawn from the candidates
  it made available (\<^verbatim>\<open>disponibili\<close>), and the log it leaves extends the log as it stands
  after the entry on the widened candidate list, if there was one.
\<close>

lemma scegli_squadra_vigili_esito:
  assumes res: "scegli_squadra_vigili sch g n aut E s = Inr (esito, s')" and n: "0 < n"
  defines "r \<equiv> raccogli_candidati sch (cont_vig s) g E (vigili_sch sch)"
  shows "(\<forall>team. esito = Some team \<longrightarrow>
            set team \<subseteq> set (if length (candidati_base r) < n \<and> fallback_candidates r \<noteq> []
                             then candidati_base r @ fallback_candidates r else candidati_base r)) \<and>
         (\<exists>voci. log s' =
            log (if length (candidati_base r) < n \<and> fallback_candidates r \<noteq> []
                 then log_voce g VIGILI
                        (Deroga_candidati
                           (list_ex (\<lambda>n. limit_map r n = Some True) (fallback_candidates r))
                           (list_ex (\<lambda>n. summer_map r n = Some True) (fallback_candidates r))
                           (fallback_candidates r)) s
                 else s) @ voci)"
proof -
  define disponibili where
    "disponibili = (if length (candidati_base r) < n \<and> fallback_candidates r \<noteq> []
                    then candidati_base r @ fallback_candidates r else candidati_base r)"
  define s1 where
    "s1 = (if length (candidati_base r) < n \<and> fallback_candidates r \<noteq> []
           then log_voce g VIGILI
                  (Deroga_candidati (list_ex (\<lambda>n. limit_map r n = Some True) (fallback_candidates r))
                     (list_ex (\<lambda>n. summer_map r n = Some True) (fallback_candidates r))
                     (fallback_candidates r)) s
           else s)"
  define obbl0 where
    "obbl0 = filter (\<lambda>nome. nome \<in> set disponibili) (preferenze_obbligatorie sch aut)"
  define obbl where "obbl = (if length obbl0 > n then take n obbl0 else obbl0)"
  define s2 where
    "s2 = log_voci g VIGILI
            (map Vincolo_duro_manca
               (filter (\<lambda>nome. nome \<notin> set disponibili) (preferenze_obbligatorie sch aut))) s1"
  define s3 where
    "s3 = (if length obbl0 > n then log_voce g VIGILI Vincoli_duri_eccedono s2 else s2)"
  define residui where "residui = filter (\<lambda>nome. nome \<notin> set obbl) disponibili"
  define combinazioni where
    "combinazioni = (if n - length obbl > 0 then combinations residui (n - length obbl) else [[]])"
  define val where
    "val = valuta_combinazioni sch g aut obbl (list_ex (is_senior sch) disponibili) combinazioni s3"
  have eq: "scegli_squadra_vigili sch g n aut E s =
     (if length disponibili < n
      then Inr (None, log_voce g VIGILI (Candidati_insufficienti (length disponibili) n) s1)
      else if n - length obbl > length residui
      then Inr (None, log_voce g VIGILI (Impossibile_completare (n - length obbl) (length residui)) s3)
      else if fst val = [] then Inr (None, log_voce g VIGILI Nessuna_combinazione (snd (snd val)))
      else (case sort_key fst (fst val) of
              [] \<Rightarrow> Inl IndexError
            | (p, team, violazioni_soft) # altre \<Rightarrow>
                Inr (Some team, conferma_squadra sch g r team violazioni_soft (snd (snd val)))))"
    using n
    unfolding scegli_squadra_vigili_def r_def disponibili_def s1_def obbl0_def obbl_def s2_def s3_def
      residui_def combinazioni_def val_def Let_def split_beta
    by simp
  have l3: "\<exists>voci. log s3 = log s1 @ voci"
    unfolding s3_def s2_def by (simp add: log_voce_def log_voci_def)
  obtain v4 where v4: "log (snd (snd val)) = log s3 @ v4"
    unfolding val_def using valuta_combinazioni_log by blast
  have l4: "\<exists>voci. log (snd (snd val)) = log s1 @ voci"
    using l3 v4 by auto
  have squadra: "set team \<subseteq> set disponibili" if "esito = Some team" for team
  proof -
    from res[unfolded eq] that obtain p v altre where
      hd: "sort_key fst (fst val) = (p, team, v) # altre"
      by (auto split: if_splits list.splits)
    have "(p, team, v) \<in> set (sort_key fst (fst val))" using hd by simp
    then have mem: "(p, team, v) \<in> set (fst val)" by simp
    obtain extra where extra: "extra \<in> set combinazioni" "team = obbl @ extra"
      using valuta_combinazioni_squadre[OF mem[unfolded val_def]] by auto
    have "set extra \<subseteq> set residui"
      using extra(1) set_combinations[of extra residui] unfolding combinazioni_def
      by (auto split: if_splits)
    moreover have "set residui \<subseteq> set disponibili" unfolding residui_def by auto
    moreover have "set obbl \<subseteq> set disponibili"
      unfolding obbl_def obbl0_def by (auto dest: in_set_takeD)
    ultimately show ?thesis using extra(2) by auto
  qed
  have registro: "\<exists>voci. log s' = log s1 @ voci"
  proof -
    consider (a) "s' = log_voce g VIGILI (Candidati_insufficienti (length disponibili) n) s1"
      | (b) "s' = log_voce g VIGILI (Impossibile_completare (n - length obbl) (length residui)) s3"
      | (c) "s' = log_voce g VIGILI Nessuna_combinazione (snd (snd val))"
      | (d) team v where "s' = conferma_squadra sch g r team v (snd (snd val))"
      using res[unfolded eq] by (auto split: if_splits list.splits)
    then show ?thesis
    proof cases
      case a then show ?thesis by (simp add: log_voce_def)
    next
      case b then show ?thesis using l3 by (auto simp: log_voce_def)
    next
      case c then show ?thesis using l4 by (auto simp: log_voce_def)
    next
      case d
      obtain v5 where "log s' = log (snd (snd val)) @ v5"
        unfolding d using conferma_squadra_log by blast
      then show ?thesis using l4 by auto
    qed
  qed
  show ?thesis
    using squadra registro unfolding disponibili_def s1_def by blast
qed

text \<open>
  Claim C10. Let the weekly-cap rule be off, and let \<open>p\<close> be a crew member who is not excluded,
  not on leave and not removed by the summer rule, and who has reached the raw weekly cap.
  Then the candidate loop of \<^verbatim>\<open>_scegli_squadra_vigili\<close> puts \<open>p\<close> in \<^verbatim>\<open>fallback_candidates\<close> and
  not in \<^verbatim>\<open>candidati_base\<close>, with \<^verbatim>\<open>limit_map[p]\<close> true. Whenever the selector returns:
  if the base candidates are at least as many as the crew size, \<open>p\<close> is not in the team
  returned; if they are fewer, the log holds the relaxation entry on the widened candidate
  list, flagged as caused by the weekly limit, and a team returned is drawn from the base
  and fallback candidates together. So the raw cap still influences the selection although
  the rule is off.
\<close>

theorem limite_off_rinvia_al_ripiego:
  assumes "mode (rule_weekly_cap sch) = OFF"
    and "p \<in> set (vigili_sch sch)" and "p \<notin> esclusioni" and "\<not> in_ferie sch p g"
    and "\<not> (mode (rule_summer sch) = HARD \<and> summer_block sch p (month g))"
    and "limite_raggiunto_raw sch (cont_vig s) p g"
    and "0 < n"
  shows "(let r = raccogli_candidati sch (cont_vig s) g esclusioni (vigili_sch sch) in
          p \<in> set (fallback_candidates r) \<and> p \<notin> set (candidati_base r) \<and>
          limit_map r p = Some True \<and>
          (\<forall>esito s'. scegli_squadra_vigili sch g n aut esclusioni s = Inr (esito, s') \<longrightarrow>
             (n \<le> length (candidati_base r) \<longrightarrow> (\<forall>team. esito = Some team \<longrightarrow> p \<notin> set team)) \<and>
             (length (candidati_base r) < n \<longrightarrow>
                (g, VIGILI,
                 Deroga_candidati True
                   (list_ex (\<lambda>nome. summer_map r nome = Some True) (fallback_candidates r))
                   (fallback_candidates r)) \<in> set (log s') \<and>
                (\<forall>team. esito = Some team \<longrightarrow>
                   set team \<subseteq> set (candidati_base r @ fallback_candidates r)))))"
proof -
  define r where "r = raccogli_candidati sch (cont_vig s) g esclusioni (vigili_sch sch)"
  have amm: "ammesso sch (cont_vig s) g esclusioni p"
    using assms(1,3,4,5) by (simp add: ammesso_def)
  have rin: "rinviato sch (cont_vig s) g p"
    using assms(6) by (simp add: rinviato_def)
  have fb: "p \<in> set (fallback_candidates r)"
    unfolding r_def using amm rin assms(2) by (simp add: raccogli_candidati_liste)
  have base: "p \<notin> set (candidati_base r)"
    unfolding r_def using rin by (simp add: raccogli_candidati_liste)
  have lm: "limit_map r p = Some True"
    unfolding r_def using amm assms(2,6) by (simp add: raccogli_candidati_limit_map)
  have ex: "list_ex (\<lambda>nome. limit_map r nome = Some True) (fallback_candidates r)"
    using fb lm by (auto simp: list_ex_iff)
  have ne: "fallback_candidates r \<noteq> []" using fb by auto
  have esiti: "(n \<le> length (candidati_base r) \<longrightarrow> (\<forall>team. esito = Some team \<longrightarrow> p \<notin> set team)) \<and>
             (length (candidati_base r) < n \<longrightarrow>
                (g, VIGILI,
                 Deroga_candidati True
                   (list_ex (\<lambda>nome. summer_map r nome = Some True) (fallback_candidates r))
                   (fallback_candidates r)) \<in> set (log s') \<and>
                (\<forall>team. esito = Some team \<longrightarrow>
                   set team \<subseteq> set (candidati_base r @ fallback_candidates r)))"
    if res: "scegli_squadra_vigili sch g n aut esclusioni s = Inr (esito, s')" for esito s'
  proof -
    note e = scegli_squadra_vigili_esito[OF res assms(7), folded r_def]
    show ?thesis
    proof (cases "n \<le> length (candidati_base r)")
      case True
      then have "\<forall>team. esito = Some team \<longrightarrow> set team \<subseteq> set (candidati_base r)"
        using e by simp
      then show ?thesis using True base by auto
    next
      case False
      then have sq: "\<forall>team. esito = Some team \<longrightarrow>
                       set team \<subseteq> set (candidati_base r @ fallback_candidates r)"
        using e ne by simp
      from e False ne ex obtain voci where
        "log s' = log (log_voce g VIGILI
                        (Deroga_candidati True
                           (list_ex (\<lambda>n. summer_map r n = Some True) (fallback_candidates r))
                           (fallback_candidates r)) s) @ voci"
        by auto
      then have "(g, VIGILI,
                 Deroga_candidati True
                   (list_ex (\<lambda>nome. summer_map r nome = Some True) (fallback_candidates r))
                   (fallback_candidates r)) \<in> set (log s')"
        by (simp add: log_voce_def)
      then show ?thesis using False sq by simp
    qed
  qed
  show ?thesis
    unfolding Let_def r_def[symmetric] using fb base lm esiti by blast
qed

text \<open>
  The theorem on Sunday 2024-01-07, with A already counted once on Saturday 2024-01-06 (cap 1):
  with four base candidates the team is B, C, D, E; with E excluded, only three remain and
  A completes the team, with the relaxation entry in the log.
\<close>

theorem limite_off_rinvia_al_ripiego_witness:
  "(let sch = projr (Scheduler_init 2024 config_limite_off None);
        s = (stato_iniziale (\<lambda>_. 0))\<lparr>cont_vig := aggiungi Conteggi_vuoti ''A'' (2024, 1, 6)\<rparr>
    in mode (rule_weekly_cap sch) = OFF \<and>
       limite_raggiunto_raw sch (cont_vig s) ''A'' (2024, 1, 7) \<and>
       ''A'' \<in> set (fallback_candidates
                     (raccogli_candidati sch (cont_vig s) (2024, 1, 7) {''P''} (vigili_sch sch))) \<and>
       ''A'' \<notin> set (candidati_base
                     (raccogli_candidati sch (cont_vig s) (2024, 1, 7) {''P''} (vigili_sch sch))) \<and>
       (\<exists>s'. scegli_squadra_vigili sch (2024, 1, 7) 4 (Some ''P'') {''P''} s =
                Inr (Some [''B'', ''C'', ''D'', ''E''], s')) \<and>
       (\<exists>s'. scegli_squadra_vigili sch (2024, 1, 7) 4 (Some ''P'') {''P'', ''E''} s =
                Inr (Some [''B'', ''C'', ''D'', ''A''], s') \<and>
              ((2024, 1, 7), VIGILI, Deroga_candidati True False [''A'']) \<in> set (log s')))"
proof -
  define sch where "sch = projr (Scheduler_init 2024 config_limite_off None)"
  define s where
    "s = (stato_iniziale (\<lambda>_. 0))\<lparr>cont_vig := aggiungi Conteggi_vuoti ''A'' (2024, 1, 6)\<rparr>"
  define g :: date where "g = (2024, 1, 7)"
  have init: "Scheduler_init 2024 config_limite_off None = Inr sch"
    unfolding sch_def by (rule Scheduler_init_projr) simp_all
  note c = Scheduler_init_campi[OF init]
  have so: "sort [''A'', ''B'', ''C'', ''D'', ''E''] = [''A'', ''B'', ''C'', ''D'', ''E'']"
    by code_simp
  have r: "rule_min_senior sch = \<lparr>mode = HARD, value = Some 1\<rparr>"
     "rule_weekly_cap sch = \<lparr>mode = OFF, value = None\<rparr>"
     "rule_summer sch = \<lparr>mode = HARD, value = None\<rparr>"
     "rule_varchi sch = \<lparr>mode = HARD, value = None\<rparr>"
    using c(7-10) by (simp_all add: config_limite_off_def campi_simps build_default_rules_def)
  have f: "autisti sch = [''P'']" "vigili_sch sch = [''A'', ''B'', ''C'', ''D'', ''E'']"
     "forbidden_hard sch = {}" "forbidden_soft sch = {}"
     "\<And>a. preferenze_hard sch a = []" "\<And>a. preferenze_soft sch a = []"
     "\<And>n. weekly_cap sch n = None" "default_weekly_cap sch = 1"
     "\<not> enable_varchi_rule sch" "autista_varchi sch = None" "autista_pogliani sch = None"
     "vigile_escluso_estate sch = None" "min_esperti sch = 1" "\<And>n. ferie sch n = None"
     "\<And>n. \<not> is_senior sch n" "\<not> varchi_is_senior sch"
    using Scheduler_init_weekly_cap[OF init]
    by (auto simp: c r config_limite_off_def campi_simps so)
  have gk: "weekday g = 6" "week_key g = (2024, 1)" "month g = 1"
    by (simp_all add: g_def)
  have st: "cont_vig s = aggiungi Conteggi_vuoti ''A'' (2024, 1, 6)" "squadre_visti s = {}"
     "random_state s = (\<lambda>_. 0)" "log s = []"
    by (simp_all add: s_def stato_iniziale_def)
  have h1: "mode (rule_weekly_cap sch) = OFF" by (simp add: r)
  have h2: "''A'' \<in> set (vigili_sch sch)" by (simp add: f)
  have h4: "\<not> in_ferie sch ''A'' g" by (simp add: in_ferie_def f)
  have h5: "\<not> (mode (rule_summer sch) = HARD \<and> summer_block sch ''A'' (month g))"
    by (simp add: summer_block_def f truthy_def)
  have h6: "limite_raggiunto_raw sch (cont_vig s) ''A'' g"
    by (simp add: limite_raggiunto_raw_def limite_settimanale_def f st gk conteggi_defs)
  have e1: "\<exists>s'. scegli_squadra_vigili sch g 4 (Some ''P'') {''P''} s =
                Inr (Some [''B'', ''C'', ''D'', ''E''], s')"
    by (simp add: squadra_defs f r st gk)
  have "\<exists>s'. scegli_squadra_vigili sch g 4 (Some ''P'') {''P'', ''E''} s =
                Inr (Some [''B'', ''C'', ''D'', ''A''], s')"
    by (simp add: squadra_defs f r st gk)
  then obtain s2 where e2: "scegli_squadra_vigili sch g 4 (Some ''P'') {''P'', ''E''} s =
                Inr (Some [''B'', ''C'', ''D'', ''A''], s2)"
    by blast
  have rb: "candidati_base (raccogli_candidati sch (cont_vig s) g {''P'', ''E''} (vigili_sch sch)) =
              [''B'', ''C'', ''D'']"
    "fallback_candidates (raccogli_candidati sch (cont_vig s) g {''P'', ''E''} (vigili_sch sch)) =
              [''A'']"
    "summer_map (raccogli_candidati sch (cont_vig s) g {''P'', ''E''} (vigili_sch sch)) ''A'' =
              Some False"
    by (simp_all add: raccogli_candidati_def raccogli_passo_def Raccolta_vuota_def summer_block_def
          truthy_def in_ferie_def limite_raggiunto_raw_def limite_settimanale_def Let_def
          conteggi_defs f r st gk)
  note t1 = limite_off_rinvia_al_ripiego
              [OF h1 h2 _ h4 h5 h6, where esclusioni = "{''P''}" and n = 4 and aut = "Some ''P''"]
  note t2 = limite_off_rinvia_al_ripiego
              [OF h1 h2 _ h4 h5 h6, where esclusioni = "{''P'', ''E''}" and n = 4
                and aut = "Some ''P''"]
  have a1: "''A'' \<in> set (fallback_candidates
                     (raccogli_candidati sch (cont_vig s) g {''P''} (vigili_sch sch))) \<and>
       ''A'' \<notin> set (candidati_base
                     (raccogli_candidati sch (cont_vig s) g {''P''} (vigili_sch sch)))"
    using t1 by (simp add: Let_def)
  have a2: "(g, VIGILI, Deroga_candidati True False [''A'']) \<in> set (log s2)"
    using t2 e2 by (simp add: Let_def rb)
  show ?thesis
    unfolding Let_def sch_def[symmetric] s_def[symmetric] g_def[symmetric]
    using h1 h6 a1 e1 e2 a2 by blast
qed

section \<open>No name twice in one assignment\<close>

text \<open>
  Claim C7. Every assignment has exactly four crew slots and no name twice among the
  driver and the crew. The code keeps the four slots, and \<^verbatim>\<open>_costruisci_per_data_internal\<close>
  excludes the chosen driver from the crew selection; but \<^verbatim>\<open>_aggiungi_varchi_venerdi\<close>
  appends the rotation driver to Friday's crew without looking at who drives. With
  Varchi as the only driver, on Friday 5 January 2024 (the first date of the run) Varchi
  is chosen as driver and then appended as fourth crew member: the assignment names
  him twice.
\<close>

theorem venerdi_varchi_autista_e_vigile:
  "map_sum id fst (primo_turno 2024 config_varchi_guida None (\<lambda>_. 0) (2024, 1, 5)) =
     Inr \<lparr>giorno = (2024, 1, 5), autista = Some ''Varchi'',
          vigili = [Some ''A'', Some ''B'', Some ''C'', Some ''Varchi'']\<rparr>"
proof -
  obtain sch where init: "Scheduler_init 2024 config_varchi_guida None = Inr sch"
    using Scheduler_init_ok[of 2024] by auto
  note c = Scheduler_init_campi[OF init]
  have r: "rule_min_senior sch = \<lparr>mode = HARD, value = Some 1\<rparr>"
     "rule_weekly_cap sch = \<lparr>mode = HARD, value = None\<rparr>"
     "rule_summer sch = \<lparr>mode = HARD, value = None\<rparr>"
     "rule_varchi sch = \<lparr>mode = HARD, value = None\<rparr>"
    using c(7-10) by (simp_all add: config_defs)
  have f: "autisti sch = [''Varchi'']" "vigili_sch sch = [''A'', ''B'', ''C'', ''Varchi'']"
     "forbidden_hard sch = {}" "forbidden_soft sch = {}"
     "\<And>a. preferenze_hard sch a = []" "\<And>a. preferenze_soft sch a = []"
     "\<And>n. weekly_cap sch n = None" "default_weekly_cap sch = 1"
     "enable_varchi_rule sch" "autista_varchi sch = Some ''Varchi''" "autista_pogliani sch = None"
     "vigile_escluso_estate sch = None" "min_esperti sch = 1" "\<And>n. ferie sch n = None"
     "\<And>n. is_senior sch n = (n = ''Varchi'')" "varchi_is_senior sch"
    using Scheduler_init_weekly_cap[OF init]
    by (auto simp: c r config_defs campi_simps)
  have sa: "\<exists>s. scegli_autista sch (2024, 1, 5) {} (stato_iniziale (\<lambda>_. 0)) = Inr (Some ''Varchi'', s) \<and>
     cont_vig s = Conteggi_vuoti \<and> squadre_visti s = {} \<and> log s = [] \<and> random_state s = (\<lambda>_. 0)"
    by (simp add: autista_defs stato_iniziale_def f r)
  then obtain s1 where s1: "scegli_autista sch (2024, 1, 5) {} (stato_iniziale (\<lambda>_. 0)) = Inr (Some ''Varchi'', s1)"
     "cont_vig s1 = Conteggi_vuoti" "squadre_visti s1 = {}" "log s1 = []" "random_state s1 = (\<lambda>_. 0)"
    by blast
  have sq: "\<exists>s. scegli_squadra_vigili sch (2024, 1, 5) 3 (Some ''Varchi'') {''Varchi''} s1 = Inr (Some [''A'', ''B'', ''C''], s) \<and>
     per_settimana (cont_vig s) ''Varchi'' (2024, 1) = 0"
    by (simp add: squadra_defs f r s1)
  then obtain s2 where s2: "scegli_squadra_vigili sch (2024, 1, 5) 3 (Some ''Varchi'') {''Varchi''} s1 = Inr (Some [''A'', ''B'', ''C''], s2)"
     "per_settimana (cont_vig s2) ''Varchi'' (2024, 1) = 0"
    by blast
  have av: "fst (aggiungi_varchi_venerdi sch (2024, 1, 5) [''A'', ''B'', ''C''] s2) = [''A'', ''B'', ''C'', ''Varchi'']"
    by (simp add: varchi_defs f r s2)
  show ?thesis
    unfolding primo_turno_def init
    by (simp add: data_defs f r s1 s2 av split_beta)
qed

section \<open>Hard-forbidden pairs\<close>

text \<open>
  Claim C1. No assignment has both names of a hard-forbidden pair in its crew, also after
  the Friday bonus member is appended. \<^verbatim>\<open>_scegli_squadra_vigili\<close> rejects every candidate
  team that holds a hard-forbidden pair, but \<^verbatim>\<open>_aggiungi_varchi_venerdi\<close> appends the
  rotation driver without consulting \<^verbatim>\<open>forbidden_hard\<close>. With the pair (A, Varchi)
  hard-forbidden, on Friday 5 January 2024 the crew A, B, C is selected and Varchi is
  appended to it.
\<close>

theorem venerdi_coppia_vietata_in_squadra:
  "map_sum id forbidden_hard (Scheduler_init 2024 config_coppia None) = Inr {{''A'', ''Varchi''}} \<and>
   map_sum id fst (primo_turno 2024 config_coppia None (\<lambda>_. 0) (2024, 1, 5)) =
     Inr \<lparr>giorno = (2024, 1, 5), autista = Some ''D'',
          vigili = [Some ''A'', Some ''B'', Some ''C'', Some ''Varchi'']\<rparr>"
proof -
  obtain sch where init: "Scheduler_init 2024 config_coppia None = Inr sch"
    using Scheduler_init_ok[of 2024] by auto
  note c = Scheduler_init_campi[OF init]
  have r: "rule_min_senior sch = \<lparr>mode = HARD, value = Some 1\<rparr>"
     "rule_weekly_cap sch = \<lparr>mode = HARD, value = None\<rparr>"
     "rule_summer sch = \<lparr>mode = HARD, value = None\<rparr>"
     "rule_varchi sch = \<lparr>mode = HARD, value = None\<rparr>"
    using c(7-10) by (simp_all add: config_defs)
  have f: "autisti sch = [''D'']" "vigili_sch sch = [''A'', ''B'', ''C'', ''Varchi'']"
     "forbidden_hard sch = {{''A'', ''Varchi''}}" "forbidden_soft sch = {}"
     "\<And>a. preferenze_hard sch a = []" "\<And>a. preferenze_soft sch a = []"
     "\<And>n. weekly_cap sch n = None" "default_weekly_cap sch = 1"
     "enable_varchi_rule sch" "autista_varchi sch = Some ''Varchi''" "autista_pogliani sch = None"
     "vigile_escluso_estate sch = None" "min_esperti sch = 1" "\<And>n. ferie sch n = None"
     "\<And>n. is_senior sch n = (n = ''Varchi'')" "varchi_is_senior sch"
    using Scheduler_init_weekly_cap[OF init]
    by (auto simp: c r config_defs campi_simps)
  have "\<exists>s. scegli_autista sch (2024, 1, 5) {} (stato_iniziale (\<lambda>_. 0)) = Inr (Some ''D'', s) \<and>
     cont_vig s = Conteggi_vuoti \<and> squadre_visti s = {} \<and> log s = [] \<and> random_state s = (\<lambda>_. 0)"
    by (simp add: autista_defs stato_iniziale_def f r)
  then obtain s1 where s1:
     "scegli_autista sch (2024, 1, 5) {} (stato_iniziale (\<lambda>_. 0)) = Inr (Some ''D'', s1)"
     "cont_vig s1 = Conteggi_vuoti" "squadre_visti s1 = {}" "log s1 = []" "random_state s1 = (\<lambda>_. 0)"
    by blast
  have "\<exists>s. scegli_squadra_vigili sch (2024, 1, 5) 3 (Some ''D'') {''Varchi'', ''D''} s1 =
               Inr (Some [''A'', ''B'', ''C''], s) \<and>
             per_settimana (cont_vig s) ''Varchi'' (2024, 1) = 0"
    by (simp add: squadra_defs f r s1)
  then obtain s2 where s2:
     "scegli_squadra_vigili sch (2024, 1, 5) 3 (Some ''D'') {''Varchi'', ''D''} s1 =
        Inr (Some [''A'', ''B'', ''C''], s2)"
     "per_settimana (cont_vig s2) ''Varchi'' (2024, 1) = 0"
    by blast
  have av: "fst (aggiungi_varchi_venerdi sch (2024, 1, 5) [''A'', ''B'', ''C''] s2) =
              [''A'', ''B'', ''C'', ''Varchi'']"
    by (simp add: varchi_defs f r s2)
  show ?thesis
    unfolding primo_turno_def init
    by (simp add: data_defs f r s1 s2 av split_beta)
qed

section \<open>The retry without the special-rotation rule\<close>




lemma riprove_campi [simp]:
  "riprove_registrate (s\<lparr>cont_aut := ca\<rparr>) = riprove_registrate s"
  "riprove_registrate (s\<lparr>cont_vig := cv\<rparr>) = riprove_registrate s"
  "riprove_registrate (s\<lparr>squadre_visti := sv\<rparr>) = riprove_registrate s"
  "riprove_registrate (s\<lparr>autisti_reali := ar\<rparr>) = riprove_registrate s"
  "riprove_registrate (s\<lparr>random_state := rs\<rparr>) = riprove_registrate s"
  by (simp_all add: riprove_registrate_def)











section \<open>Counters and discarded attempts\<close>

text \<open>
  Claim C5. The load counters are written only for the people of the assignment finally
  produced for a date, so a discarded attempt leaves them as if it had never run. The
  selectors write the counters when they select, and \<^verbatim>\<open>_costruisci_per_data\<close> does not
  undo the writes of the attempt it discards. With the rotation rule in soft mode, on
  Saturday 6 January 2024 the first attempt selects the driver D and finds no crew; the
  retry then finds D at the weekly cap because of the discarded attempt and selects no
  driver. The assignment produced has no driver, the real driver recorded for the date is
  none, and the driver counters of D stand at one.
\<close>

theorem riprova_lascia_conteggio:
  "map_sum id (\<lambda>(a, s). (a, autisti_reali s (2024, 1, 6),
                            per_settimana (cont_aut s) ''D'' (2024, 1), annuale (cont_aut s) ''D''))
     (primo_turno 2024 config_sabato_soft None (\<lambda>_. 0) (2024, 1, 6)) =
     Inr (\<lparr>giorno = (2024, 1, 6), autista = None,
           vigili = [Some ''A'', Some ''B'', Some ''C'', Some ''Varchi'']\<rparr>,
          Some None, 1, 1)"
proof -
  obtain sch where init: "Scheduler_init 2024 config_sabato_soft None = Inr sch"
    using Scheduler_init_ok[of 2024] by auto
  note c = Scheduler_init_campi[OF init]
  have r: "rule_min_senior sch = \<lparr>mode = HARD, value = Some 1\<rparr>"
     "rule_weekly_cap sch = \<lparr>mode = HARD, value = None\<rparr>"
     "rule_summer sch = \<lparr>mode = HARD, value = None\<rparr>"
     "rule_varchi sch = \<lparr>mode = SOFT, value = None\<rparr>"
    using c(7-10) by (simp_all add: config_defs campi_simps build_default_rules_def)
  have f: "autisti sch = [''D'']" "vigili_sch sch = [''A'', ''B'', ''C'', ''Varchi'']"
     "forbidden_hard sch = {}" "forbidden_soft sch = {}"
     "\<And>a. preferenze_hard sch a = []" "\<And>a. preferenze_soft sch a = []"
     "\<And>n. weekly_cap sch n = None" "default_weekly_cap sch = 1"
     "enable_varchi_rule sch" "autista_varchi sch = Some ''Varchi''" "autista_pogliani sch = None"
     "vigile_escluso_estate sch = None" "min_esperti sch = 1" "\<And>n. ferie sch n = None"
     "\<And>n. is_senior sch n = (n = ''Varchi'')" "varchi_is_senior sch"
    using Scheduler_init_weekly_cap[OF init]
    by (auto simp: c r config_defs campi_simps)
  define g :: date where "g = (2024, 1, 6)"
  have g: "weekday g = 5" "week_key g = (2024, 1)" "month g = 1"
    by (simp_all add: g_def)
  have "\<exists>s. scegli_autista sch g {''Varchi''} (stato_iniziale (\<lambda>_. 0)) = Inr (Some ''D'', s) \<and>
     cont_vig s = Conteggi_vuoti \<and> squadre_visti s = {} \<and> random_state s = (\<lambda>_. 0) \<and>
     autisti_reali s = Map.empty \<and>
     per_settimana (cont_aut s) ''D'' (2024, 1) = 1 \<and> annuale (cont_aut s) ''D'' = 1"
    by (simp add: autista_defs stato_iniziale_def f r g)
  then obtain s1 where s1:
     "scegli_autista sch g {''Varchi''} (stato_iniziale (\<lambda>_. 0)) = Inr (Some ''D'', s1)"
     "cont_vig s1 = Conteggi_vuoti" "squadre_visti s1 = {}" "random_state s1 = (\<lambda>_. 0)"
     "autisti_reali s1 = Map.empty"
     "per_settimana (cont_aut s1) ''D'' (2024, 1) = 1" "annuale (cont_aut s1) ''D'' = 1"
    by blast
  have "\<exists>s. scegli_squadra_vigili sch g 4 (Some ''D'') {''Varchi'', ''D''} s1 = Inr (None, s) \<and>
     cont_vig s = Conteggi_vuoti \<and> squadre_visti s = {} \<and> random_state s = (\<lambda>_. 0) \<and>
     autisti_reali s = Map.empty \<and> cont_aut s = cont_aut s1"
    by (simp add: squadra_defs f r s1 g)
  then obtain s2 where s2:
     "scegli_squadra_vigili sch g 4 (Some ''D'') {''Varchi'', ''D''} s1 = Inr (None, s2)"
     "cont_vig s2 = Conteggi_vuoti" "squadre_visti s2 = {}" "random_state s2 = (\<lambda>_. 0)"
     "autisti_reali s2 = Map.empty" "cont_aut s2 = cont_aut s1"
    by blast
  have int1: "costruisci_per_data_internal sch g None True (stato_iniziale (\<lambda>_. 0)) =
     Inr ((\<lparr>giorno = g, autista = Some ''D'', vigili = [None, None, None, None]\<rparr>, Some ''D''),
          log_voce g VIGILI Turno_scoperto s2)"
    by (simp add: costruisci_per_data_internal_def truthy_def nomi_veri_def
          numero_vigili_previsti_def Let_def f r g s1 s2)
  define sA where "sA = log_voce g AUTISTA Deroga_varchi (log_voce g VIGILI Turno_scoperto s2)"
  have sA: "cont_vig sA = Conteggi_vuoti" "squadre_visti sA = {}" "random_state sA = (\<lambda>_. 0)"
     "autisti_reali sA = Map.empty" "cont_aut sA = cont_aut s1"
    by (simp_all add: sA_def log_voce_def s2)
  have "\<exists>s. scegli_autista sch g {} sA = Inr (None, s) \<and>
     cont_vig s = Conteggi_vuoti \<and> squadre_visti s = {} \<and> random_state s = (\<lambda>_. 0) \<and>
     autisti_reali s = Map.empty \<and> cont_aut s = cont_aut s1"
    by (simp add: autista_defs f r g sA s1)
  then obtain s3 where s3:
     "scegli_autista sch g {} sA = Inr (None, s3)"
     "cont_vig s3 = Conteggi_vuoti" "squadre_visti s3 = {}" "random_state s3 = (\<lambda>_. 0)"
     "autisti_reali s3 = Map.empty" "cont_aut s3 = cont_aut s1"
    by blast
  have "\<exists>s. scegli_squadra_vigili sch g 4 None {} s3 =
               Inr (Some [''A'', ''B'', ''C'', ''Varchi''], s) \<and>
     autisti_reali s = Map.empty \<and> cont_aut s = cont_aut s1"
    by (simp add: squadra_defs f r s3 g)
  then obtain s4 where s4:
     "scegli_squadra_vigili sch g 4 None {} s3 = Inr (Some [''A'', ''B'', ''C'', ''Varchi''], s4)"
     "autisti_reali s4 = Map.empty" "cont_aut s4 = cont_aut s1"
    by blast
  have int2: "costruisci_per_data_internal sch g None False sA =
     Inr ((\<lparr>giorno = g, autista = None,
             vigili = [Some ''A'', Some ''B'', Some ''C'', Some ''Varchi'']\<rparr>, None), s4)"
    by (simp add: costruisci_per_data_internal_def truthy_def nomi_veri_def
          numero_vigili_previsti_def Let_def f r g s3 s4)
  have "costruisci_per_data sch g [] (stato_iniziale (\<lambda>_. 0)) =
     Inr (\<lparr>giorno = g, autista = None,
            vigili = [Some ''A'', Some ''B'', Some ''C'', Some ''Varchi'']\<rparr>,
          s4\<lparr>autisti_reali := (autisti_reali s4)(g \<mapsto> None)\<rparr>)"
    by (simp add: costruisci_per_data_def trova_autista_settimanale_def turno_incompleto_def
          Let_def f r int1 int2[unfolded sA_def])
  then show ?thesis
    unfolding primo_turno_def init
    by (simp add: g_def[symmetric] s4 s1)
qed

section \<open>A date without a driver\<close>

text \<open>
  Claim C8 says that a date that cannot be satisfied yields an assignment with a missing
  driver or missing crew fields, and a log entry. On a Saturday under the rotation rule
  \<^verbatim>\<open>_costruisci_per_data_internal\<close> replaces the displayed driver by the rotation driver
  when \<^verbatim>\<open>autista == self.autista_pogliani\<close>; with no linked driver configured and no driver
  selected both sides are \<^verbatim>\<open>None\<close> and the test succeeds. With Varchi as the only driver,
  on Saturday 6 January 2024 no driver can be selected (the log says so, and the real
  driver recorded for the date is none), yet the assignment shows Varchi as driver with
  a full crew: no field is missing and \<^verbatim>\<open>_turno_incompleto\<close> is false.
\<close>

theorem sabato_senza_autista_mostra_varchi:
  "map_sum id (\<lambda>(a, s). (a, turno_incompleto a, autisti_reali s (2024, 1, 6), log s))
     (primo_turno 2024 config_nessun_autista None (\<lambda>_. 0) (2024, 1, 6)) =
     Inr (\<lparr>giorno = (2024, 1, 6), autista = Some ''Varchi'',
           vigili = [Some ''A'', Some ''B'', Some ''C'', Some ''E'']\<rparr>,
          False, Some None,
          [((2024, 1, 6), AUTISTA, Nessun_autista),
           ((2024, 1, 6), AUTISTA, Visualizzo (Some ''Varchi'') None),
           ((2024, 1, 6), VIGILI, Deroga_nessun_senior)])"
proof -
  obtain sch where init: "Scheduler_init 2024 config_nessun_autista None = Inr sch"
    using Scheduler_init_ok[of 2024] by auto
  note c = Scheduler_init_campi[OF init]
  have r: "rule_min_senior sch = \<lparr>mode = HARD, value = Some 1\<rparr>"
     "rule_weekly_cap sch = \<lparr>mode = HARD, value = None\<rparr>"
     "rule_summer sch = \<lparr>mode = HARD, value = None\<rparr>"
     "rule_varchi sch = \<lparr>mode = HARD, value = None\<rparr>"
    using c(7-10) by (simp_all add: config_defs)
  have f: "autisti sch = [''Varchi'']" "vigili_sch sch = [''A'', ''B'', ''C'', ''E'', ''Varchi'']"
     "forbidden_hard sch = {}" "forbidden_soft sch = {}"
     "\<And>a. preferenze_hard sch a = []" "\<And>a. preferenze_soft sch a = []"
     "\<And>n. weekly_cap sch n = None" "default_weekly_cap sch = 1"
     "enable_varchi_rule sch" "autista_varchi sch = Some ''Varchi''" "autista_pogliani sch = None"
     "vigile_escluso_estate sch = None" "min_esperti sch = 1" "\<And>n. ferie sch n = None"
     "\<And>n. is_senior sch n = (n = ''Varchi'')" "varchi_is_senior sch"
    using Scheduler_init_weekly_cap[OF init]
    by (auto simp: c r config_defs campi_simps)
  define g :: date where "g = (2024, 1, 6)"
  have g: "weekday g = 5" "week_key g = (2024, 1)" "month g = 1"
    by (simp_all add: g_def)
  have "\<exists>s. scegli_autista sch g {''Varchi''} (stato_iniziale (\<lambda>_. 0)) = Inr (None, s) \<and>
     cont_vig s = Conteggi_vuoti \<and> squadre_visti s = {} \<and> random_state s = (\<lambda>_. 0) \<and>
     autisti_reali s = Map.empty \<and> log s = [(g, AUTISTA, Nessun_autista)]"
    by (simp add: autista_defs stato_iniziale_def f r g)
  then obtain s1 where s1:
     "scegli_autista sch g {''Varchi''} (stato_iniziale (\<lambda>_. 0)) = Inr (None, s1)"
     "cont_vig s1 = Conteggi_vuoti" "squadre_visti s1 = {}" "random_state s1 = (\<lambda>_. 0)"
     "autisti_reali s1 = Map.empty" "log s1 = [(g, AUTISTA, Nessun_autista)]"
    by blast
  define sB where "sB = log_voce g AUTISTA (Visualizzo (Some ''Varchi'') None) s1"
  have sB: "cont_vig sB = Conteggi_vuoti" "squadre_visti sB = {}" "random_state sB = (\<lambda>_. 0)"
     "autisti_reali sB = Map.empty"
     "log sB = [(g, AUTISTA, Nessun_autista), (g, AUTISTA, Visualizzo (Some ''Varchi'') None)]"
    by (simp_all add: sB_def log_voce_def s1)
  have "\<exists>s. scegli_squadra_vigili sch g 4 None {''Varchi''} sB =
               Inr (Some [''A'', ''B'', ''C'', ''E''], s) \<and>
     autisti_reali s = Map.empty \<and>
     log s = [(g, AUTISTA, Nessun_autista), (g, AUTISTA, Visualizzo (Some ''Varchi'') None),
              (g, VIGILI, Deroga_nessun_senior)]"
    by (simp add: squadra_defs f r sB g)
  then obtain s2 where s2:
     "scegli_squadra_vigili sch g 4 None {''Varchi''} sB = Inr (Some [''A'', ''B'', ''C'', ''E''], s2)"
     "autisti_reali s2 = Map.empty"
     "log s2 = [(g, AUTISTA, Nessun_autista), (g, AUTISTA, Visualizzo (Some ''Varchi'') None),
                (g, VIGILI, Deroga_nessun_senior)]"
    by blast
  have int1: "costruisci_per_data_internal sch g None True (stato_iniziale (\<lambda>_. 0)) =
     Inr ((\<lparr>giorno = g, autista = Some ''Varchi'',
             vigili = [Some ''A'', Some ''B'', Some ''C'', Some ''E'']\<rparr>, None), s2)"
    by (simp add: costruisci_per_data_internal_def truthy_def nomi_veri_def
          numero_vigili_previsti_def Let_def f r g s1 s2[unfolded sB_def])
  have "costruisci_per_data sch g [] (stato_iniziale (\<lambda>_. 0)) =
     Inr (\<lparr>giorno = g, autista = Some ''Varchi'',
            vigili = [Some ''A'', Some ''B'', Some ''C'', Some ''E'']\<rparr>,
          s2\<lparr>autisti_reali := (autisti_reali s2)(g \<mapsto> None)\<rparr>)"
    by (simp add: costruisci_per_data_def trova_autista_settimanale_def turno_incompleto_def
          Let_def f r int1)
  then show ?thesis
    unfolding primo_turno_def init
    by (simp add: g_def[symmetric] s2 turno_incompleto_def)
qed

section \<open>Rules that are off\<close>

text \<open>
  Claim C2. The candidate filter of a rule whose mode is off removes no one: a
  summer-excluded person stays schedulable, an at-cap person is not filtered, and no
  candidate team is rejected for a senior shortfall. In the loop over the combinations the
  branch that rejects a team with too few seniors is taken whenever the mode of the
  minimum-seniors rule is not soft, so also when it is off. With the rule off (value 1),
  five crew candidates and the only senior S hard-forbidden with A and with B, on
  Saturday 6 January 2024 the team A, B, C, D is rejected for its senior shortfall, every
  other team holds a forbidden pair, and the date is left without crew.
\<close>

theorem regola_senior_off_scarta_squadre:
  "map_sum id (\<lambda>sch. (mode (rule_min_senior sch), min_esperti sch))
     (Scheduler_init 2024 config_senior_off None) = Inr (OFF, 1) \<and>
   map_sum id (\<lambda>(a, s). (a, log s))
     (primo_turno 2024 config_senior_off None (\<lambda>_. 0) (2024, 1, 6)) =
     Inr (\<lparr>giorno = (2024, 1, 6), autista = Some ''P'', vigili = [None, None, None, None]\<rparr>,
          [((2024, 1, 6), VIGILI, Nessuna_combinazione),
           ((2024, 1, 6), VIGILI, Turno_scoperto)])"
proof -
  obtain sch where init: "Scheduler_init 2024 config_senior_off None = Inr sch"
    using Scheduler_init_ok[of 2024] by auto
  note c = Scheduler_init_campi[OF init]
  have r: "rule_min_senior sch = \<lparr>mode = OFF, value = Some 1\<rparr>"
     "rule_weekly_cap sch = \<lparr>mode = HARD, value = None\<rparr>"
     "rule_summer sch = \<lparr>mode = HARD, value = None\<rparr>"
     "rule_varchi sch = \<lparr>mode = HARD, value = None\<rparr>"
    using c(7-10) by (simp_all add: config_defs campi_simps build_default_rules_def)
  have f: "autisti sch = [''P'']" "vigili_sch sch = [''A'', ''B'', ''C'', ''D'', ''S'']"
     "forbidden_hard sch = {{''A'', ''S''}, {''B'', ''S''}}" "forbidden_soft sch = {}"
     "\<And>a. preferenze_hard sch a = []" "\<And>a. preferenze_soft sch a = []"
     "\<And>n. weekly_cap sch n = None" "default_weekly_cap sch = 1"
     "\<not> enable_varchi_rule sch" "autista_varchi sch = None" "autista_pogliani sch = None"
     "vigile_escluso_estate sch = None" "min_esperti sch = 1" "\<And>n. ferie sch n = None"
     "\<And>n. is_senior sch n = (n = ''S'')" "\<not> varchi_is_senior sch"
    using Scheduler_init_weekly_cap[OF init]
    by (auto simp: c r config_defs campi_simps)
  define g :: date where "g = (2024, 1, 6)"
  have g: "weekday g = 5" "week_key g = (2024, 1)" "month g = 1"
    by (simp_all add: g_def)
  have "\<exists>s. scegli_autista sch g {} (stato_iniziale (\<lambda>_. 0)) = Inr (Some ''P'', s) \<and>
     cont_vig s = Conteggi_vuoti \<and> squadre_visti s = {} \<and> random_state s = (\<lambda>_. 0) \<and>
     log s = []"
    by (simp add: autista_defs stato_iniziale_def f r g)
  then obtain s1 where s1:
     "scegli_autista sch g {} (stato_iniziale (\<lambda>_. 0)) = Inr (Some ''P'', s1)"
     "cont_vig s1 = Conteggi_vuoti" "squadre_visti s1 = {}" "random_state s1 = (\<lambda>_. 0)"
     "log s1 = []"
    by blast
  have "\<exists>s. scegli_squadra_vigili sch g 4 (Some ''P'') {''P''} s1 = Inr (None, s) \<and>
     log s = [(g, VIGILI, Nessuna_combinazione)]"
    by (simp add: squadra_defs f r s1 g)
  then obtain s2 where s2:
     "scegli_squadra_vigili sch g 4 (Some ''P'') {''P''} s1 = Inr (None, s2)"
     "log s2 = [(g, VIGILI, Nessuna_combinazione)]"
    by blast
  have int1: "costruisci_per_data_internal sch g None False (stato_iniziale (\<lambda>_. 0)) =
     Inr ((\<lparr>giorno = g, autista = Some ''P'', vigili = [None, None, None, None]\<rparr>, Some ''P''),
          log_voce g VIGILI Turno_scoperto s2)"
    by (simp add: costruisci_per_data_internal_def truthy_def nomi_veri_def
          numero_vigili_previsti_def Let_def f r g s1 s2)
  have "costruisci_per_data sch g [] (stato_iniziale (\<lambda>_. 0)) =
     Inr (\<lparr>giorno = g, autista = Some ''P'', vigili = [None, None, None, None]\<rparr>,
          (log_voce g VIGILI Turno_scoperto s2)
            \<lparr>autisti_reali :=
               (autisti_reali (log_voce g VIGILI Turno_scoperto s2))(g \<mapsto> Some ''P'')\<rparr>)"
    by (simp add: costruisci_per_data_def trova_autista_settimanale_def turno_incompleto_def
          Let_def f r int1)
  then show ?thesis
    unfolding primo_turno_def init
    by (simp add: g_def[symmetric] s2 log_voce_def f r)
qed

section \<open>The weekly cap across the two roles\<close>

text \<open>
  Claim C4. In hard mode a person with a positive weekly cap has at most that many
  assignments in an ISO week, driver and crew combined. The scheduler counts the two
  roles in separate counters, \<^verbatim>\<open>cont_aut\<close> and \<^verbatim>\<open>cont_vig\<close>, and tests a driver against the
  first and a crew member against the second. With P both the only driver and a crew
  member, weekly cap 1, P drives on Saturday 6 January 2024 and serves in the crew on
  Sunday 7 January 2024, two assignments in ISO week 1.
\<close>

theorem autista_e_vigile_stessa_settimana:
  "map_sum id (\<lambda>sch. (mode (rule_weekly_cap sch), weekly_cap sch ''P''))
     (Scheduler_init 2024 config_doppio_ruolo None) = Inr (HARD, Some 1) \<and>
   week_key (2024, 1, 6) = week_key (2024, 1, 7) \<and>
   map_sum id (\<lambda>(a1, a2, s). (a1, a2))
     (due_turni 2024 config_doppio_ruolo None (\<lambda>_. 0) (2024, 1, 6) (2024, 1, 7)) =
     Inr (\<lparr>giorno = (2024, 1, 6), autista = Some ''P'', vigili = [None, None, None, None]\<rparr>,
          \<lparr>giorno = (2024, 1, 7), autista = None,
           vigili = [Some ''A'', Some ''B'', Some ''C'', Some ''P'']\<rparr>)"
proof -
  obtain sch where init: "Scheduler_init 2024 config_doppio_ruolo None = Inr sch"
    using Scheduler_init_ok[of 2024] by auto
  note c = Scheduler_init_campi[OF init]
  have r: "rule_min_senior sch = \<lparr>mode = HARD, value = Some 1\<rparr>"
     "rule_weekly_cap sch = \<lparr>mode = HARD, value = None\<rparr>"
     "rule_summer sch = \<lparr>mode = HARD, value = None\<rparr>"
     "rule_varchi sch = \<lparr>mode = HARD, value = None\<rparr>"
    using c(7-10) by (simp_all add: config_defs)
  have f: "autisti sch = [''P'']" "vigili_sch sch = [''A'', ''B'', ''C'', ''P'']"
     "forbidden_hard sch = {}" "forbidden_soft sch = {}"
     "\<And>a. preferenze_hard sch a = []" "\<And>a. preferenze_soft sch a = []"
     "default_weekly_cap sch = 1"
     "\<not> enable_varchi_rule sch" "autista_varchi sch = None" "autista_pogliani sch = None"
     "vigile_escluso_estate sch = None" "min_esperti sch = 1" "\<And>n. ferie sch n = None"
     "\<And>n. \<not> is_senior sch n" "\<not> varchi_is_senior sch"
    using Scheduler_init_weekly_cap[OF init]
    by (auto simp: c r config_defs campi_simps)
  have w: "weekly_cap sch ''P'' = Some 1" "weekly_cap sch ''A'' = Some 0"
     "weekly_cap sch ''B'' = Some 0" "weekly_cap sch ''C'' = Some 0"
    using Scheduler_init_weekly_cap[OF init] by (simp_all add: config_defs)
  define g1 :: date where "g1 = (2024, 1, 6)"
  define g2 :: date where "g2 = (2024, 1, 7)"
  have g: "weekday g1 = 5" "week_key g1 = (2024, 1)" "month g1 = 1"
          "weekday g2 = 6" "week_key g2 = (2024, 1)" "month g2 = 1"
    by (simp_all add: g1_def g2_def)
  have "\<exists>s. scegli_autista sch g1 {} (stato_iniziale (\<lambda>_. 0)) = Inr (Some ''P'', s) \<and>
     cont_vig s = Conteggi_vuoti \<and> squadre_visti s = {} \<and> random_state s = (\<lambda>_. 0) \<and>
     autisti_reali s = Map.empty \<and> per_settimana (cont_aut s) ''P'' (2024, 1) = 1"
    by (simp add: autista_defs stato_iniziale_def f r g w)
  then obtain s1 where s1:
     "scegli_autista sch g1 {} (stato_iniziale (\<lambda>_. 0)) = Inr (Some ''P'', s1)"
     "cont_vig s1 = Conteggi_vuoti" "squadre_visti s1 = {}" "random_state s1 = (\<lambda>_. 0)"
     "autisti_reali s1 = Map.empty" "per_settimana (cont_aut s1) ''P'' (2024, 1) = 1"
    by blast
  have "\<exists>s. scegli_squadra_vigili sch g1 4 (Some ''P'') {''P''} s1 = Inr (None, s) \<and>
     cont_vig s = Conteggi_vuoti \<and> squadre_visti s = {} \<and> random_state s = (\<lambda>_. 0) \<and>
     autisti_reali s = Map.empty \<and> cont_aut s = cont_aut s1"
    by (simp add: squadra_defs f r s1 g w)
  then obtain s2 where s2:
     "scegli_squadra_vigili sch g1 4 (Some ''P'') {''P''} s1 = Inr (None, s2)"
     "cont_vig s2 = Conteggi_vuoti" "squadre_visti s2 = {}" "random_state s2 = (\<lambda>_. 0)"
     "autisti_reali s2 = Map.empty" "cont_aut s2 = cont_aut s1"
    by blast
  define a1 :: Assegnazione
    where "a1 = \<lparr>giorno = g1, autista = Some ''P'', vigili = [None, None, None, None]\<rparr>"
  have int1: "costruisci_per_data_internal sch g1 None False (stato_iniziale (\<lambda>_. 0)) =
     Inr ((a1, Some ''P''), log_voce g1 VIGILI Turno_scoperto s2)"
    by (simp add: costruisci_per_data_internal_def truthy_def nomi_veri_def
          numero_vigili_previsti_def Let_def f r g s1 s2 a1_def)
  define sC where "sC = (log_voce g1 VIGILI Turno_scoperto s2)
            \<lparr>autisti_reali :=
               (autisti_reali (log_voce g1 VIGILI Turno_scoperto s2))(g1 \<mapsto> Some ''P'')\<rparr>"
  have d1: "costruisci_per_data sch g1 [] (stato_iniziale (\<lambda>_. 0)) = Inr (a1, sC)"
    by (simp add: costruisci_per_data_def trova_autista_settimanale_def turno_incompleto_def
          Let_def f r int1 sC_def)
  have sC: "cont_vig sC = Conteggi_vuoti" "squadre_visti sC = {}" "random_state sC = (\<lambda>_. 0)"
     "autisti_reali sC g1 = Some (Some ''P'')" "per_settimana (cont_aut sC) ''P'' (2024, 1) = 1"
    by (simp_all add: sC_def log_voce_def s2 s1)
  have "\<exists>s. scegli_autista sch g2 {} sC = Inr (None, s) \<and>
     cont_vig s = Conteggi_vuoti \<and> squadre_visti s = {} \<and> random_state s = (\<lambda>_. 0)"
    by (simp add: autista_defs f r g w sC)
  then obtain s3 where s3:
     "scegli_autista sch g2 {} sC = Inr (None, s3)"
     "cont_vig s3 = Conteggi_vuoti" "squadre_visti s3 = {}" "random_state s3 = (\<lambda>_. 0)"
    by blast
  have "\<exists>s. scegli_squadra_vigili sch g2 4 None {} s3 =
               Inr (Some [''A'', ''B'', ''C'', ''P''], s)"
    by (simp add: squadra_defs f r s3 g w)
  then obtain s4 where s4:
     "scegli_squadra_vigili sch g2 4 None {} s3 = Inr (Some [''A'', ''B'', ''C'', ''P''], s4)"
    by blast
  define a2 :: Assegnazione
    where "a2 = \<lparr>giorno = g2, autista = None,
                 vigili = [Some ''A'', Some ''B'', Some ''C'', Some ''P'']\<rparr>"
  have int2: "costruisci_per_data_internal sch g2 (Some ''P'') False sC = Inr ((a2, None), s4)"
    by (simp add: costruisci_per_data_internal_def truthy_def nomi_veri_def
          numero_vigili_previsti_def Let_def f r g s3 s4 a2_def)
  have d2: "costruisci_per_data sch g2 [(g1, a1)] sC =
              Inr (a2, s4\<lparr>autisti_reali := (autisti_reali s4)(g2 \<mapsto> None)\<rparr>)"
    by (simp add: costruisci_per_data_def trova_autista_settimanale_def turno_incompleto_def
          Let_def f r g sC int2)
  show ?thesis
    unfolding due_turni_def init
    by (simp add: g1_def[symmetric] g2_def[symmetric] d1 d2 r w g)
       (simp add: a1_def a2_def g1_def g2_def)
qed

end
